theory Spec2Isabelle
  imports Main
begin

section \<open>Python values, truthiness and subscripting\<close>

text \<open>
  The three operations of \<^verbatim>\<open>openrouteservice/geocode.py\<close> are dynamically typed: every
  argument may be any Python object. The model covers the built-in values a caller
  passes: \<^verbatim>\<open>None\<close>, booleans, unbounded integers, floats, strings, lists, tuples and
  dictionaries. A float is represented by the decimal number it is written as:
  \<open>PFloat m e\<close> stands for \<open>m / 10 ^ e\<close> (so \<^verbatim>\<open>8.34\<close> is \<open>PFloat 834 2\<close>); NaN and the
  infinities are not represented. A dictionary is the list of its items in insertion
  order; its keys are pairwise unequal, as Python guarantees.
\<close>

datatype pyval =
    PNone
  | PBool bool
  | PInt int
  | PFloat int nat
  | PStr string
  | PList "pyval list"
  | PTuple "pyval list"
  | PDict "(pyval \<times> pyval) list"

datatype pyerr =
    TypeError string
  | ValueError string
  | IndexError string
  | KeyError pyval

text \<open>Python's truth value of an object, as tested by \<^verbatim>\<open>if x:\<close>.\<close>

fun truthy :: "pyval \<Rightarrow> bool" where
  "truthy PNone = False"
| "truthy (PBool b) = b"
| "truthy (PInt i) = (i \<noteq> 0)"
| "truthy (PFloat m e) = (m \<noteq> 0)"
| "truthy (PStr s) = (s \<noteq> [])"
| "truthy (PList xs) = (xs \<noteq> [])"
| "truthy (PTuple xs) = (xs \<noteq> [])"
| "truthy (PDict kvs) = (kvs \<noteq> [])"

text \<open>\<^verbatim>\<open>isinstance(x, str)\<close>.\<close>

fun isinstance_str :: "pyval \<Rightarrow> bool" where
  "isinstance_str (PStr s) = True"
| "isinstance_str _ = False"

text \<open>
  A dictionary key equal to the integer \<open>n\<close>: Python compares numbers by value, so
  \<^verbatim>\<open>0 == 0.0 == False\<close>.
\<close>

fun key_is_int :: "pyval \<Rightarrow> nat \<Rightarrow> bool" where
  "key_is_int (PInt i) n = (i = int n)"
| "key_is_int (PBool b) n = ((if b then 1 else 0) = n)"
| "key_is_int (PFloat m e) n = (m = int n * 10 ^ e)"
| "key_is_int _ n = False"

fun dict_get :: "(pyval \<times> pyval) list \<Rightarrow> nat \<Rightarrow> pyval option" where
  "dict_get [] n = None"
| "dict_get ((k, v) # kvs) n = (if key_is_int k n then Some v else dict_get kvs n)"

text \<open>
  \<^verbatim>\<open>x[n]\<close> for a literal index \<open>n \<ge> 0\<close> (the source only writes \<^verbatim>\<open>[0]\<close> and \<^verbatim>\<open>[1]\<close>):
  a sequence or a string raises \<^verbatim>\<open>IndexError\<close> out of range, a dictionary raises
  \<^verbatim>\<open>KeyError\<close> for a missing key, and a value without \<^verbatim>\<open>__getitem__\<close> raises
  \<^verbatim>\<open>TypeError\<close>.
\<close>

definition not_subscriptable :: "string \<Rightarrow> pyerr" where
  "not_subscriptable ty =
     TypeError ([CHR 0x27] @ ty @ [CHR 0x27] @ '' object is not subscriptable'')"

fun subscript :: "pyval \<Rightarrow> nat \<Rightarrow> pyerr + pyval" where
  "subscript (PList xs) n =
     (if n < length xs then Inr (xs ! n) else Inl (IndexError ''list index out of range''))"
| "subscript (PTuple xs) n =
     (if n < length xs then Inr (xs ! n) else Inl (IndexError ''tuple index out of range''))"
| "subscript (PStr s) n =
     (if n < length s then Inr (PStr [s ! n]) else Inl (IndexError ''string index out of range''))"
| "subscript (PDict kvs) n =
     (case dict_get kvs n of None \<Rightarrow> Inl (KeyError (PInt (int n))) | Some v \<Rightarrow> Inr v)"
| "subscript PNone n = Inl (not_subscriptable ''NoneType'')"
| "subscript (PBool b) n = Inl (not_subscriptable ''bool'')"
| "subscript (PInt i) n = Inl (not_subscriptable ''int'')"
| "subscript (PFloat m e) n = Inl (not_subscriptable ''float'')"

text \<open>Sequencing of statements that may raise: the first exception ends the call.\<close>

definition err_bind :: "'e + 'a \<Rightarrow> ('a \<Rightarrow> 'e + 'b) \<Rightarrow> 'e + 'b" where
  "err_bind m f = (case m of Inl e \<Rightarrow> Inl e | Inr x \<Rightarrow> f x)"

section \<open>The helpers of the \<^verbatim>\<open>convert\<close> module\<close>

text \<open>
  Modelled from the spec: \<^verbatim>\<open>convert._is_list\<close> is imported by \<^verbatim>\<open>geocode.py\<close> but is not
  among the sources. The spec gives its contract: a sequence-type predicate, true of
  lists and tuples, false of a bare string (``even though a string is iterable'') and
  of everything that is not a sequence.
\<close>

fun is_list :: "pyval \<Rightarrow> bool" where
  "is_list (PList xs) = True"
| "is_list (PTuple xs) = True"
| "is_list _ = False"

text \<open>The elements a \<^verbatim>\<open>for\<close> loop sees in a sequence.\<close>

fun items :: "pyval \<Rightarrow> pyval list" where
  "items (PList xs) = xs"
| "items (PTuple xs) = xs"
| "items _ = []"

fun the_str :: "pyval \<Rightarrow> string" where
  "the_str (PStr s) = s"
| "the_str _ = []"

fun join :: "string \<Rightarrow> string list \<Rightarrow> string" where
  "join sep [] = []"
| "join sep [s] = s"
| "join sep (s # t # ts) = s @ sep @ join sep (t # ts)"

text \<open>
  Modelled from the spec: \<^verbatim>\<open>convert._comma_list\<close> is not among the sources. Its contract
  in the spec: a comma-list joiner, sequence of strings to a single comma-delimited
  string. The spec says nothing about other arguments; the model raises there, and the
  operations below only reach it with a sequence of strings (see
  \<open>list_param_comma_list_ok\<close>).
\<close>

definition comma_list :: "pyval \<Rightarrow> pyerr + string" where
  "comma_list v =
     (if is_list v \<and> list_all isinstance_str (items v)
      then Inr (join '','' (map the_str (items v)))
      else Inl (TypeError ''Expected a list or tuple of strings.''))"

section \<open>Module constants and message formatting\<close>

text \<open>Lines 22-36. The source lists \<^verbatim>\<open>'county'\<close> twice.\<close>

definition valid_layers :: "string list" where
  "valid_layers =
     [''venue'', ''address'', ''street'', ''neighbourhood'', ''borough'', ''localadmin'',
      ''locality'', ''county'', ''macrocounty'', ''region'', ''macroregion'', ''county'',
      ''coarse'']"

definition valid_sources :: "string list" where
  "valid_sources = [''osm'', ''oa'', ''wof'', ''gn'']"

text \<open>
  \<^verbatim>\<open>x in xs\<close> for a list \<open>xs\<close> of strings: only a string is equal to a string.
\<close>

fun py_in :: "pyval \<Rightarrow> string list \<Rightarrow> bool" where
  "py_in (PStr s) xs = List.member xs s"
| "py_in _ xs = False"

text \<open>\<^verbatim>\<open>all((x in valid) for x in seq)\<close>.\<close>

definition all_in :: "pyval \<Rightarrow> string list \<Rightarrow> bool" where
  "all_in seq valid = list_all (\<lambda>x. py_in x valid) (items seq)"

text \<open>
  \<^verbatim>\<open>repr\<close> of a list of strings that hold no quote and no backslash, as the two
  constants do: \<^verbatim>\<open>['osm', 'oa', 'wof', 'gn']\<close>.
\<close>

definition repr_str :: "string \<Rightarrow> string" where
  "repr_str s = [CHR 0x27] @ s @ [CHR 0x27]"

definition repr_str_list :: "string list \<Rightarrow> string" where
  "repr_str_list xs = ''['' @ join '', '' (map repr_str xs) @ '']''"

text \<open>
  \<^verbatim>\<open>template.format(arg)\<close> with one positional argument, already rendered, for a
  template with at most one placeholder, as the source's two templates are: the
  \<^verbatim>\<open>{}\<close> is replaced by the argument; a template without a placeholder is returned
  as it is, and the argument is dropped.
\<close>

fun py_format :: "string \<Rightarrow> string \<Rightarrow> string" where
  "py_format [] a = []"
| "py_format (c # cs) a =
     (case cs of
        [] \<Rightarrow> [c]
      | d # ds \<Rightarrow>
          if c = CHR ''{'' \<and> d = CHR ''}'' then a @ py_format ds a
          else c # py_format cs a)"

section \<open>Wire keys of the rectangle bounds\<close>

text \<open>
  Lines 112, 115, 118 and 121 write the rectangle keys with a TAB character (byte 9)
  before the closing quote. Line 121 (\<^verbatim>\<open>rect_max_y\<close>) uses the key of line 118.
\<close>

definition rect_min_lon_key :: string where
  "rect_min_lon_key = ''boundary.rect.min_lon'' @ [CHR 0x09]"

definition rect_min_lat_key :: string where
  "rect_min_lat_key = ''boundary.rect.min_lat'' @ [CHR 0x09]"

definition rect_max_lon_key :: string where
  "rect_max_lon_key = ''boundary.rect.max_lon'' @ [CHR 0x09]"

section \<open>The blocks the three operations are made of\<close>

type_synonym params = "string \<rightharpoonup> pyval"

text \<open>
  The float formatter \<^verbatim>\<open>convert._format_float\<close> is not among the sources either. The
  operations take it as the parameter \<open>ff\<close>: any function from a value to a string
  that may raise. Every theorem about the operations holds for every formatter.
\<close>

type_synonym formatter = "pyval \<Rightarrow> pyerr + string"

text \<open>
  Two assignments from a point (lines 108-109, 124-125, 300-301):
  \<^verbatim>\<open>params[klon] = convert._format_float(pt[0]); params[klat] = convert._format_float(pt[1])\<close>.
\<close>

definition point_param :: "formatter \<Rightarrow> string \<Rightarrow> string \<Rightarrow> pyval \<Rightarrow> params \<Rightarrow> pyerr + params" where
  "point_param ff klon klat pt p =
     err_bind (subscript pt 0) (\<lambda>x.
     err_bind (ff x) (\<lambda>lon.
     err_bind (subscript pt 1) (\<lambda>y.
     err_bind (ff y) (\<lambda>lat.
       Inr (p(klon \<mapsto> PStr lon, klat \<mapsto> PStr lat))))))"

text \<open>\<^verbatim>\<open>if pt: <the two assignments>\<close> (lines 107-109, 123-125).\<close>

definition opt_point_param :: "formatter \<Rightarrow> string \<Rightarrow> string \<Rightarrow> pyval \<Rightarrow> params \<Rightarrow> pyerr + params" where
  "opt_point_param ff klon klat pt p =
     (if truthy pt then point_param ff klon klat pt p else Inr p)"

text \<open>\<^verbatim>\<open>if v: params[k] = convert._format_float(v)\<close> (lines 111-121).\<close>

definition float_param :: "formatter \<Rightarrow> string \<Rightarrow> pyval \<Rightarrow> params \<Rightarrow> pyerr + params" where
  "float_param ff k v p =
     (if truthy v then err_bind (ff v) (\<lambda>s. Inr (p(k \<mapsto> PStr s))) else Inr p)"

text \<open>\<^verbatim>\<open>if v: params[k] = v\<close> (lines 127-128, 149-150, 326-327).\<close>

definition raw_param :: "string \<Rightarrow> pyval \<Rightarrow> params \<Rightarrow> pyerr + params" where
  "raw_param k v p = (if truthy v then Inr (p(k \<mapsto> v)) else Inr p)"

text \<open>
  \<^verbatim>\<open>if v: params[k] = str(v)\<close> (lines 303-304). The built-in \<^verbatim>\<open>str\<close> is the parameter
  \<open>pystr\<close>.
\<close>

definition strof_param :: "(pyval \<Rightarrow> string) \<Rightarrow> string \<Rightarrow> pyval \<Rightarrow> params \<Rightarrow> pyerr + params" where
  "strof_param pystr k v p = (if truthy v then Inr (p(k \<mapsto> PStr (pystr v))) else Inr p)"

text \<open>
  \<^verbatim>\<open>if v: if not isinstance(v, str): raise TypeError(msg); params[k] = v\<close>
  (lines 144-147, 211-249, 320-324).
\<close>

definition str_param :: "string \<Rightarrow> string \<Rightarrow> pyval \<Rightarrow> params \<Rightarrow> pyerr + params" where
  "str_param k msg v p =
     (if truthy v then
        (if \<not> isinstance_str v then Inl (TypeError msg) else Inr (p(k \<mapsto> v)))
      else Inr p)"

text \<open>
  The \<^verbatim>\<open>sources\<close> and \<^verbatim>\<open>layers\<close> blocks (lines 130-142, 306-318):
  \<^verbatim>\<open>if v: if not convert._is_list(v): raise TypeError(tmsg);
         if not all((x in valid) for x in v): raise ValueError(vmsg);
         params[k] = convert._comma_list(v)\<close>.
\<close>

definition list_param :: "string \<Rightarrow> string list \<Rightarrow> string \<Rightarrow> string \<Rightarrow> pyval \<Rightarrow> params \<Rightarrow> pyerr + params" where
  "list_param k valid tmsg vmsg v p =
     (if truthy v then
        (if \<not> is_list v then Inl (TypeError tmsg)
         else if \<not> all_in v valid then Inl (ValueError vmsg)
         else err_bind (comma_list v) (\<lambda>s. Inr (p(k \<mapsto> PStr s))))
      else Inr p)"

text \<open>Lines 134 and 310: the message of an invalid source, with the placeholder.\<close>

definition sources_value_msg :: string where
  "sources_value_msg =
     py_format ''Source must be one or more of {}'' (repr_str_list valid_sources)"

text \<open>Lines 141 and 317: the message of an invalid layer; the template has no placeholder.\<close>

definition layers_value_msg :: string where
  "layers_value_msg =
     py_format ''Source must be one or more of '' (repr_str_list valid_layers)"

definition sources_param :: "pyval \<Rightarrow> params \<Rightarrow> pyerr + params" where
  "sources_param = list_param ''sources'' valid_sources ''Data source invalid.'' sources_value_msg"

definition layers_param :: "pyval \<Rightarrow> params \<Rightarrow> pyerr + params" where
  "layers_param =
     list_param ''layers'' valid_layers ''Invalid layer type for geocoding.'' layers_value_msg"

text \<open>
  Modelled from the spec: \<^verbatim>\<open>convert._format_float\<close> is not among the sources. The spec's
  contract: number to canonical decimal string, deterministic, the exact decimal form,
  no exponent notation (\<^verbatim>\<open>8.34234\<close> gives \<^verbatim>\<open>"8.34234"\<close>, \<^verbatim>\<open>8.34\<close> gives \<^verbatim>\<open>"8.34"\<close>).
  The model prints the sign, the integer part and, when the fraction is not zero, a
  point and the fraction's digits without trailing zeros. The spec gives no contract
  for an argument that is not a number; the model raises there. This instance is used
  only where a concrete formatted string is needed.
\<close>

definition digit_char :: "nat \<Rightarrow> char" where
  "digit_char d = ''0123456789'' ! d"

fun nat_digits :: "nat \<Rightarrow> string" where
  "nat_digits n =
     (if n < 10 then [digit_char n] else nat_digits (n div 10) @ [digit_char (n mod 10)])"

fun frac_digits :: "nat \<Rightarrow> nat \<Rightarrow> string" where
  "frac_digits 0 f = []"
| "frac_digits (Suc e) f = frac_digits e (f div 10) @ [digit_char (f mod 10)]"

definition rstrip :: "char \<Rightarrow> string \<Rightarrow> string" where
  "rstrip c s = rev (dropWhile (\<lambda>x. x = c) (rev s))"

definition decimal_str :: "int \<Rightarrow> nat \<Rightarrow> string" where
  "decimal_str m e =
     (let a = nat \<bar>m\<bar>;
          ip = nat_digits (a div 10 ^ e);
          fp = rstrip CHR ''0'' (frac_digits e (a mod 10 ^ e))
      in (if m < 0 then ''-'' else []) @ ip @ (if fp = [] then [] else ''.'' @ fp))"

fun spec_format_float :: formatter where
  "spec_format_float (PInt i) = Inr (decimal_str i 0)"
| "spec_format_float (PFloat m e) = Inr (decimal_str m e)"
| "spec_format_float _ = Inl (TypeError ''float() argument must be a number'')"

section \<open>The three operations\<close>

text \<open>
  Each operation builds its parameter mapping (every line before the final
  \<^verbatim>\<open>return\<close>) and then calls \<^verbatim>\<open>client.request(path, params, dry_run=dry_run)\<close>. The
  builder \<open>*_params\<close> is the body up to the \<^verbatim>\<open>return\<close>: it yields the mapping or the
  exception raised.
\<close>

text \<open>\<^verbatim>\<open>pelias_search\<close>, lines 105-150.\<close>

definition pelias_search_params ::
  "formatter \<Rightarrow> pyval \<Rightarrow> pyval \<Rightarrow> pyval \<Rightarrow> pyval \<Rightarrow> pyval \<Rightarrow> pyval \<Rightarrow> pyval \<Rightarrow> pyval \<Rightarrow> pyval \<Rightarrow> pyval
     \<Rightarrow> pyval \<Rightarrow> pyval \<Rightarrow> pyerr + params" where
  "pelias_search_params ff text focus_point rect_min_x rect_min_y rect_max_x rect_max_y
       circle_point circle_radius sources layers country size' =
     err_bind (opt_point_param ff ''focus.point.lon'' ''focus.point.lat'' focus_point
                 [''text'' \<mapsto> text]) (\<lambda>p.
     err_bind (float_param ff rect_min_lon_key rect_min_x p) (\<lambda>p.
     err_bind (float_param ff rect_min_lat_key rect_min_y p) (\<lambda>p.
     err_bind (float_param ff rect_max_lon_key rect_max_x p) (\<lambda>p.
     err_bind (float_param ff rect_max_lon_key rect_max_y p) (\<lambda>p.
     err_bind (opt_point_param ff ''boundary.circle.lon'' ''boundary.circle.lat'' circle_point p) (\<lambda>p.
     err_bind (raw_param ''boundary.circle.radius'' circle_radius p) (\<lambda>p.
     err_bind (sources_param sources p) (\<lambda>p.
     err_bind (layers_param layers p) (\<lambda>p.
     err_bind (str_param ''country'' ''Country must be a string.'' country p) (\<lambda>p.
     raw_param ''size'' size' p))))))))))"

text \<open>\<^verbatim>\<open>pelias_structured\<close>, lines 209-249.\<close>

definition pelias_structured_params ::
  "pyval \<Rightarrow> pyval \<Rightarrow> pyval \<Rightarrow> pyval \<Rightarrow> pyval \<Rightarrow> pyval \<Rightarrow> pyval \<Rightarrow> pyval \<Rightarrow> pyval \<Rightarrow> pyerr + params" where
  "pelias_structured_params text address neighbourhood borough locality county region
       postalcode country =
     err_bind (str_param ''address'' ''Address must be a string.'' address [''text'' \<mapsto> text]) (\<lambda>p.
     err_bind (str_param ''neighbourhood'' ''Neighbourhood must be a string.'' neighbourhood p) (\<lambda>p.
     err_bind (str_param ''borough'' ''Borough must be a string.'' borough p) (\<lambda>p.
     err_bind (str_param ''locality'' ''Locality must be a string.'' locality p) (\<lambda>p.
     err_bind (str_param ''county'' ''County must be a string.'' county p) (\<lambda>p.
     err_bind (str_param ''region'' ''Region must be a string.'' region p) (\<lambda>p.
     err_bind (str_param ''postalcode'' ''Postalcode must be a string.'' postalcode p) (\<lambda>p.
     str_param ''country'' ''Country must be a string.'' country p)))))))"

text \<open>\<^verbatim>\<open>pelias_reverse\<close>, lines 295-327.\<close>

definition pelias_reverse_params ::
  "formatter \<Rightarrow> (pyval \<Rightarrow> string) \<Rightarrow> pyval \<Rightarrow> pyval \<Rightarrow> pyval \<Rightarrow> pyval \<Rightarrow> pyval \<Rightarrow> pyval
     \<Rightarrow> pyerr + params" where
  "pelias_reverse_params ff pystr point circle_radius sources layers country size' =
     (if \<not> is_list point then Inl (TypeError ''Point must be a list/tuple of coordinates.'')
      else
        err_bind (point_param ff ''point.lon'' ''point.lat'' point Map.empty) (\<lambda>p.
        err_bind (strof_param pystr ''boundary.circle.radius'' circle_radius p) (\<lambda>p.
        err_bind (sources_param sources p) (\<lambda>p.
        err_bind (layers_param layers p) (\<lambda>p.
        err_bind (str_param ''country'' ''Country must be a string.'' country p) (\<lambda>p.
        raw_param ''size'' size' p))))))"

text \<open>
  The client is an external collaborator with one capability,
  \<^verbatim>\<open>request(path, params, dry_run)\<close>. It is modelled as a function of its own state
  \<open>'s\<close> that returns a response \<open>'r\<close> or raises. An operation returns what the client
  returns, and leaves the client's state untouched when it raises before the call.
\<close>

type_synonym ('s, 'r) client = "string \<Rightarrow> params \<Rightarrow> pyval \<Rightarrow> 's \<Rightarrow> (pyerr + 'r) \<times> 's"

definition delegate ::
  "('s, 'r) client \<Rightarrow> string \<Rightarrow> pyval \<Rightarrow> pyerr + params \<Rightarrow> 's \<Rightarrow> (pyerr + 'r) \<times> 's" where
  "delegate client path dry_run built s =
     (case built of Inl e \<Rightarrow> (Inl e, s) | Inr p \<Rightarrow> client path p dry_run s)"

definition pelias_search ::
  "formatter \<Rightarrow> ('s, 'r) client \<Rightarrow> pyval \<Rightarrow> pyval \<Rightarrow> pyval \<Rightarrow> pyval \<Rightarrow> pyval \<Rightarrow> pyval \<Rightarrow> pyval \<Rightarrow> pyval
     \<Rightarrow> pyval \<Rightarrow> pyval \<Rightarrow> pyval \<Rightarrow> pyval \<Rightarrow> pyval \<Rightarrow> 's \<Rightarrow> (pyerr + 'r) \<times> 's" where
  "pelias_search ff client text focus_point rect_min_x rect_min_y rect_max_x rect_max_y
       circle_point circle_radius sources layers country size' dry_run =
     delegate client ''/geocode/search'' dry_run
       (pelias_search_params ff text focus_point rect_min_x rect_min_y rect_max_x rect_max_y
          circle_point circle_radius sources layers country size')"

definition pelias_structured ::
  "('s, 'r) client \<Rightarrow> pyval \<Rightarrow> pyval \<Rightarrow> pyval \<Rightarrow> pyval \<Rightarrow> pyval \<Rightarrow> pyval \<Rightarrow> pyval \<Rightarrow> pyval \<Rightarrow> pyval
     \<Rightarrow> pyval \<Rightarrow> 's \<Rightarrow> (pyerr + 'r) \<times> 's" where
  "pelias_structured client text address neighbourhood borough locality county region
       postalcode country dry_run =
     delegate client ''/geocode/search/structured'' dry_run
       (pelias_structured_params text address neighbourhood borough locality county region
          postalcode country)"

definition pelias_reverse ::
  "formatter \<Rightarrow> (pyval \<Rightarrow> string) \<Rightarrow> ('s, 'r) client \<Rightarrow> pyval \<Rightarrow> pyval \<Rightarrow> pyval \<Rightarrow> pyval \<Rightarrow> pyval
     \<Rightarrow> pyval \<Rightarrow> pyval \<Rightarrow> 's \<Rightarrow> (pyerr + 'r) \<times> 's" where
  "pelias_reverse ff pystr client point circle_radius sources layers country size' dry_run =
     delegate client ''/geocode/reverse'' dry_run
       (pelias_reverse_params ff pystr point circle_radius sources layers country size')"

text \<open>
  A client that records every request it receives and answers with \<^verbatim>\<open>None\<close>: its
  state is the list of the calls made so far.
\<close>

record request =
  req_path :: string
  req_params :: params
  req_dry_run :: pyval

definition recording_client :: "(request list, pyval) client" where
  "recording_client path p dry_run log =
     (Inr PNone, log @ [\<lparr>req_path = path, req_params = p, req_dry_run = dry_run\<rparr>])"

text \<open>
  The built-in \<^verbatim>\<open>str\<close> on integers, where it is the decimal numeral; the value given
  for anything else is a placeholder. The operations take \<^verbatim>\<open>str\<close> as a parameter; this
  instance is used for concrete examples with an integer radius only.
\<close>

fun int_str :: "pyval \<Rightarrow> string" where
  "int_str (PInt i) = decimal_str i 0"
| "int_str _ = []"

text \<open>
  The mapping a builder returns when it raises nothing is a chain of conditional
  assignments; \<open>upd_if\<close> is one of them. \<open>point_check\<close> is what the two assignments
  from a point compute before they store anything: the two formatted coordinates, or
  the first exception.
\<close>

definition upd_if :: "bool \<Rightarrow> string \<Rightarrow> pyval \<Rightarrow> params \<Rightarrow> params" where
  "upd_if b k v p = (if b then p(k \<mapsto> v) else p)"

definition point_check :: "formatter \<Rightarrow> pyval \<Rightarrow> pyerr + string \<times> string" where
  "point_check ff pt =
     err_bind (subscript pt 0) (\<lambda>x.
     err_bind (ff x) (\<lambda>lon.
     err_bind (subscript pt 1) (\<lambda>y.
     err_bind (ff y) (\<lambda>lat. Inr (lon, lat)))))"

section \<open>Basic facts\<close>

declare nat_digits.simps [simp del]

lemma upd_if_apply: "upd_if b k v p k' = (if b \<and> k' = k then Some v else p k')"
  by (simp add: upd_if_def)

lemma upd_if_dom_iff: "k' \<in> dom (upd_if b k v p) \<longleftrightarrow> (b \<and> k' = k) \<or> k' \<in> dom p"
  by (auto simp: upd_if_def)

lemma mem_if_empty: "x \<in> (if b then S else {}) \<longleftrightarrow> b \<and> x \<in> S"
  by simp

lemma err_bind_Inr_iff: "err_bind m f = Inr y \<longleftrightarrow> (\<exists>x. m = Inr x \<and> f x = Inr y)"
  by (cases m) (simp_all add: err_bind_def)

lemma err_bind_Inl_iff:
  "err_bind m f = Inl e \<longleftrightarrow> m = Inl e \<or> (\<exists>x. m = Inr x \<and> f x = Inl e)"
  by (cases m) (auto simp add: err_bind_def)

lemma err_bind_Inr [simp]: "err_bind (Inr x) f = f x"
  by (simp add: err_bind_def)

lemma err_bind_Inl [simp]: "err_bind (Inl e) f = Inl e"
  by (simp add: err_bind_def)

lemma all_in_strings:
  assumes "all_in v valid"
  shows "list_all isinstance_str (items v)"
proof -
  have "py_in x valid \<Longrightarrow> isinstance_str x" for x
    by (cases x) simp_all
  with assms show ?thesis
    by (auto simp: all_in_def list_all_iff)
qed

lemma list_param_comma_list_ok:
  assumes "is_list v" and "all_in v valid"
  shows "comma_list v = Inr (join '','' (map the_str (items v)))"
  using assms all_in_strings [of v valid] by (simp add: comma_list_def)

subsection \<open>Each block: when it succeeds and with what, when it raises and what\<close>

lemma point_param_Inr_iff:
  "point_param ff klon klat pt p = Inr q \<longleftrightarrow>
     \<not> isl (point_check ff pt) \<and>
     q = p(klon \<mapsto> PStr (fst (projr (point_check ff pt))),
           klat \<mapsto> PStr (snd (projr (point_check ff pt))))"
  unfolding point_param_def point_check_def
  by (auto simp: err_bind_def split: sum.splits)

lemma point_param_Inl_iff:
  "point_param ff klon klat pt p = Inl e \<longleftrightarrow> point_check ff pt = Inl e"
  unfolding point_param_def point_check_def
  by (auto simp: err_bind_def split: sum.splits)

lemma opt_point_param_Inr_iff:
  "opt_point_param ff klon klat pt p = Inr q \<longleftrightarrow>
     (truthy pt \<longrightarrow> \<not> isl (point_check ff pt)) \<and>
     q = upd_if (truthy pt) klat (PStr (snd (projr (point_check ff pt))))
           (upd_if (truthy pt) klon (PStr (fst (projr (point_check ff pt)))) p)"
  by (auto simp: opt_point_param_def point_param_Inr_iff upd_if_def)

lemma opt_point_param_Inl_iff:
  "opt_point_param ff klon klat pt p = Inl e \<longleftrightarrow> truthy pt \<and> point_check ff pt = Inl e"
  by (simp add: opt_point_param_def point_param_Inl_iff)

lemma float_param_Inr_iff:
  "float_param ff k v p = Inr q \<longleftrightarrow>
     (truthy v \<longrightarrow> \<not> isl (ff v)) \<and> q = upd_if (truthy v) k (PStr (projr (ff v))) p"
  by (auto simp: float_param_def upd_if_def err_bind_def split: sum.splits)

lemma float_param_Inl_iff:
  "float_param ff k v p = Inl e \<longleftrightarrow> truthy v \<and> ff v = Inl e"
  by (auto simp: float_param_def err_bind_def split: sum.splits)

lemma raw_param_Inr_iff: "raw_param k v p = Inr q \<longleftrightarrow> q = upd_if (truthy v) k v p"
  by (auto simp: raw_param_def upd_if_def)

lemma raw_param_Inl_iff: "raw_param k v p = Inl e \<longleftrightarrow> False"
  by (simp add: raw_param_def)

lemma strof_param_Inr_iff:
  "strof_param pystr k v p = Inr q \<longleftrightarrow> q = upd_if (truthy v) k (PStr (pystr v)) p"
  by (auto simp: strof_param_def upd_if_def)

lemma strof_param_Inl_iff: "strof_param pystr k v p = Inl e \<longleftrightarrow> False"
  by (simp add: strof_param_def)

lemma str_param_Inr_iff:
  "str_param k msg v p = Inr q \<longleftrightarrow>
     (truthy v \<longrightarrow> isinstance_str v) \<and> q = upd_if (truthy v) k v p"
  by (auto simp: str_param_def upd_if_def)

lemma str_param_Inl_iff:
  "str_param k msg v p = Inl e \<longleftrightarrow> truthy v \<and> \<not> isinstance_str v \<and> e = TypeError msg"
  by (auto simp: str_param_def)

lemma list_param_Inr_iff:
  "list_param k valid tmsg vmsg v p = Inr q \<longleftrightarrow>
     (truthy v \<longrightarrow> is_list v \<and> all_in v valid) \<and>
     q = upd_if (truthy v) k (PStr (join '','' (map the_str (items v)))) p"
  by (auto simp: list_param_def upd_if_def list_param_comma_list_ok)

lemma list_param_Inl_iff:
  "list_param k valid tmsg vmsg v p = Inl e \<longleftrightarrow>
     truthy v \<and> (\<not> is_list v \<and> e = TypeError tmsg
                  \<or> is_list v \<and> \<not> all_in v valid \<and> e = ValueError vmsg)"
  by (auto simp: list_param_def list_param_comma_list_ok)

lemmas step_iffs =
  opt_point_param_Inr_iff opt_point_param_Inl_iff point_param_Inr_iff point_param_Inl_iff
  float_param_Inr_iff float_param_Inl_iff
  raw_param_Inr_iff raw_param_Inl_iff strof_param_Inr_iff strof_param_Inl_iff
  str_param_Inr_iff str_param_Inl_iff list_param_Inr_iff list_param_Inl_iff

subsection \<open>The builders: when they succeed, and with which mapping\<close>

lemma pelias_search_params_Inr_iff:
  "pelias_search_params ff text focus_point rect_min_x rect_min_y rect_max_x
      rect_max_y circle_point circle_radius sources layers country size' = Inr q \<longleftrightarrow>
   (truthy focus_point \<longrightarrow> \<not> isl (point_check ff focus_point)) \<and>
   (truthy rect_min_x \<longrightarrow> \<not> isl (ff rect_min_x)) \<and>
   (truthy rect_min_y \<longrightarrow> \<not> isl (ff rect_min_y)) \<and>
   (truthy rect_max_x \<longrightarrow> \<not> isl (ff rect_max_x)) \<and>
   (truthy rect_max_y \<longrightarrow> \<not> isl (ff rect_max_y)) \<and>
   (truthy circle_point \<longrightarrow> \<not> isl (point_check ff circle_point)) \<and>
   (truthy sources \<longrightarrow> is_list sources \<and> all_in sources valid_sources) \<and>
   (truthy layers \<longrightarrow> is_list layers \<and> all_in layers valid_layers) \<and>
   (truthy country \<longrightarrow> isinstance_str country) \<and>
   q =
     upd_if (truthy size') ''size'' size'
    (upd_if (truthy country) ''country'' country
    (upd_if (truthy layers) ''layers'' (PStr (join '','' (map the_str (items layers))))
    (upd_if (truthy sources) ''sources'' (PStr (join '','' (map the_str (items sources))))
    (upd_if (truthy circle_radius) ''boundary.circle.radius'' circle_radius
    (upd_if (truthy circle_point) ''boundary.circle.lat''
        (PStr (snd (projr (point_check ff circle_point))))
    (upd_if (truthy circle_point) ''boundary.circle.lon''
        (PStr (fst (projr (point_check ff circle_point))))
    (upd_if (truthy rect_max_y) rect_max_lon_key (PStr (projr (ff rect_max_y)))
    (upd_if (truthy rect_max_x) rect_max_lon_key (PStr (projr (ff rect_max_x)))
    (upd_if (truthy rect_min_y) rect_min_lat_key (PStr (projr (ff rect_min_y)))
    (upd_if (truthy rect_min_x) rect_min_lon_key (PStr (projr (ff rect_min_x)))
    (upd_if (truthy focus_point) ''focus.point.lat''
        (PStr (snd (projr (point_check ff focus_point))))
    (upd_if (truthy focus_point) ''focus.point.lon''
        (PStr (fst (projr (point_check ff focus_point))))
      [''text'' \<mapsto> text]))))))))))))"
  unfolding pelias_search_params_def sources_param_def layers_param_def
  by (simp add: err_bind_Inr_iff step_iffs)

lemma pelias_structured_params_Inr_iff:
  "pelias_structured_params text address neighbourhood borough locality county
      region postalcode country = Inr q \<longleftrightarrow>
   (truthy address \<longrightarrow> isinstance_str address) \<and>
   (truthy neighbourhood \<longrightarrow> isinstance_str neighbourhood) \<and>
   (truthy borough \<longrightarrow> isinstance_str borough) \<and>
   (truthy locality \<longrightarrow> isinstance_str locality) \<and>
   (truthy county \<longrightarrow> isinstance_str county) \<and>
   (truthy region \<longrightarrow> isinstance_str region) \<and>
   (truthy postalcode \<longrightarrow> isinstance_str postalcode) \<and>
   (truthy country \<longrightarrow> isinstance_str country) \<and>
   q =
     upd_if (truthy country) ''country'' country
    (upd_if (truthy postalcode) ''postalcode'' postalcode
    (upd_if (truthy region) ''region'' region
    (upd_if (truthy county) ''county'' county
    (upd_if (truthy locality) ''locality'' locality
    (upd_if (truthy borough) ''borough'' borough
    (upd_if (truthy neighbourhood) ''neighbourhood'' neighbourhood
    (upd_if (truthy address) ''address'' address
      [''text'' \<mapsto> text])))))))"
  unfolding pelias_structured_params_def
  by (simp add: err_bind_Inr_iff step_iffs)

lemma pelias_reverse_params_Inr_iff:
  "pelias_reverse_params ff pystr point circle_radius sources layers country size' = Inr q \<longleftrightarrow>
   is_list point \<and>
   \<not> isl (point_check ff point) \<and>
   (truthy sources \<longrightarrow> is_list sources \<and> all_in sources valid_sources) \<and>
   (truthy layers \<longrightarrow> is_list layers \<and> all_in layers valid_layers) \<and>
   (truthy country \<longrightarrow> isinstance_str country) \<and>
   q =
     upd_if (truthy size') ''size'' size'
    (upd_if (truthy country) ''country'' country
    (upd_if (truthy layers) ''layers'' (PStr (join '','' (map the_str (items layers))))
    (upd_if (truthy sources) ''sources'' (PStr (join '','' (map the_str (items sources))))
    (upd_if (truthy circle_radius) ''boundary.circle.radius'' (PStr (pystr circle_radius))
      [''point.lon'' \<mapsto> PStr (fst (projr (point_check ff point))),
       ''point.lat'' \<mapsto> PStr (snd (projr (point_check ff point)))]))))"
  unfolding pelias_reverse_params_def sources_param_def layers_param_def
  by (simp add: err_bind_Inr_iff step_iffs)

subsection \<open>The builders: when they raise\<close>

lemma not_Inr_iff_isl: "(\<forall>q. x \<noteq> Inr q) \<longleftrightarrow> isl x"
  by (cases x) simp_all

lemma structured_raises_iff:
  "isl (pelias_structured_params text address neighbourhood borough locality county region
      postalcode country) \<longleftrightarrow>
   truthy address \<and> \<not> isinstance_str address
   \<or> truthy neighbourhood \<and> \<not> isinstance_str neighbourhood
   \<or> truthy borough \<and> \<not> isinstance_str borough
   \<or> truthy locality \<and> \<not> isinstance_str locality
   \<or> truthy county \<and> \<not> isinstance_str county
   \<or> truthy region \<and> \<not> isinstance_str region
   \<or> truthy postalcode \<and> \<not> isinstance_str postalcode
   \<or> truthy country \<and> \<not> isinstance_str country"
  unfolding not_Inr_iff_isl [symmetric] pelias_structured_params_Inr_iff
  by auto

lemma search_raises_iff:
  "isl (pelias_search_params ff text focus_point rect_min_x rect_min_y rect_max_x rect_max_y
      circle_point circle_radius sources layers country size') \<longleftrightarrow>
   truthy focus_point \<and> isl (point_check ff focus_point)
   \<or> truthy rect_min_x \<and> isl (ff rect_min_x)
   \<or> truthy rect_min_y \<and> isl (ff rect_min_y)
   \<or> truthy rect_max_x \<and> isl (ff rect_max_x)
   \<or> truthy rect_max_y \<and> isl (ff rect_max_y)
   \<or> truthy circle_point \<and> isl (point_check ff circle_point)
   \<or> truthy sources \<and> \<not> (is_list sources \<and> all_in sources valid_sources)
   \<or> truthy layers \<and> \<not> (is_list layers \<and> all_in layers valid_layers)
   \<or> truthy country \<and> \<not> isinstance_str country"
  unfolding not_Inr_iff_isl [symmetric] pelias_search_params_Inr_iff
  by auto

lemma reverse_raises_iff:
  "isl (pelias_reverse_params ff pystr point circle_radius sources layers country size') \<longleftrightarrow>
   \<not> is_list point
   \<or> isl (point_check ff point)
   \<or> truthy sources \<and> \<not> (is_list sources \<and> all_in sources valid_sources)
   \<or> truthy layers \<and> \<not> (is_list layers \<and> all_in layers valid_layers)
   \<or> truthy country \<and> \<not> isinstance_str country"
  unfolding not_Inr_iff_isl [symmetric] pelias_reverse_params_Inr_iff
  by auto

subsection \<open>The keys of the mapping a builder returns\<close>

lemma search_dom_iff:
  assumes "pelias_search_params ff text focus_point rect_min_x rect_min_y rect_max_x
             rect_max_y circle_point circle_radius sources layers country size' = Inr q"
  shows "k \<in> dom q \<longleftrightarrow>
     truthy size' \<and> k = ''size''
     \<or> truthy country \<and> k = ''country''
     \<or> truthy layers \<and> k = ''layers''
     \<or> truthy sources \<and> k = ''sources''
     \<or> truthy circle_radius \<and> k = ''boundary.circle.radius''
     \<or> truthy circle_point \<and> k = ''boundary.circle.lat''
     \<or> truthy circle_point \<and> k = ''boundary.circle.lon''
     \<or> truthy rect_max_y \<and> k = rect_max_lon_key
     \<or> truthy rect_max_x \<and> k = rect_max_lon_key
     \<or> truthy rect_min_y \<and> k = rect_min_lat_key
     \<or> truthy rect_min_x \<and> k = rect_min_lon_key
     \<or> truthy focus_point \<and> k = ''focus.point.lat''
     \<or> truthy focus_point \<and> k = ''focus.point.lon''
     \<or> k = ''text''"
proof -
  from assms have q: "q =
     upd_if (truthy size') ''size'' size'
    (upd_if (truthy country) ''country'' country
    (upd_if (truthy layers) ''layers'' (PStr (join '','' (map the_str (items layers))))
    (upd_if (truthy sources) ''sources'' (PStr (join '','' (map the_str (items sources))))
    (upd_if (truthy circle_radius) ''boundary.circle.radius'' circle_radius
    (upd_if (truthy circle_point) ''boundary.circle.lat''
        (PStr (snd (projr (point_check ff circle_point))))
    (upd_if (truthy circle_point) ''boundary.circle.lon''
        (PStr (fst (projr (point_check ff circle_point))))
    (upd_if (truthy rect_max_y) rect_max_lon_key (PStr (projr (ff rect_max_y)))
    (upd_if (truthy rect_max_x) rect_max_lon_key (PStr (projr (ff rect_max_x)))
    (upd_if (truthy rect_min_y) rect_min_lat_key (PStr (projr (ff rect_min_y)))
    (upd_if (truthy rect_min_x) rect_min_lon_key (PStr (projr (ff rect_min_x)))
    (upd_if (truthy focus_point) ''focus.point.lat''
        (PStr (snd (projr (point_check ff focus_point))))
    (upd_if (truthy focus_point) ''focus.point.lon''
        (PStr (fst (projr (point_check ff focus_point))))
      [''text'' \<mapsto> text]))))))))))))"
    by (simp only: pelias_search_params_Inr_iff)
  show ?thesis
    by (subst q)
       (simp only: upd_if_dom_iff dom_fun_upd dom_empty insert_iff empty_iff option.simps
          simp_thms if_False)
qed

lemma structured_dom_iff:
  assumes "pelias_structured_params text address neighbourhood borough locality county
             region postalcode country = Inr q"
  shows "k \<in> dom q \<longleftrightarrow>
     truthy country \<and> k = ''country''
     \<or> truthy postalcode \<and> k = ''postalcode''
     \<or> truthy region \<and> k = ''region''
     \<or> truthy county \<and> k = ''county''
     \<or> truthy locality \<and> k = ''locality''
     \<or> truthy borough \<and> k = ''borough''
     \<or> truthy neighbourhood \<and> k = ''neighbourhood''
     \<or> truthy address \<and> k = ''address''
     \<or> k = ''text''"
proof -
  from assms have q: "q =
     upd_if (truthy country) ''country'' country
    (upd_if (truthy postalcode) ''postalcode'' postalcode
    (upd_if (truthy region) ''region'' region
    (upd_if (truthy county) ''county'' county
    (upd_if (truthy locality) ''locality'' locality
    (upd_if (truthy borough) ''borough'' borough
    (upd_if (truthy neighbourhood) ''neighbourhood'' neighbourhood
    (upd_if (truthy address) ''address'' address
      [''text'' \<mapsto> text])))))))"
    by (simp only: pelias_structured_params_Inr_iff)
  show ?thesis
    by (subst q)
       (simp only: upd_if_dom_iff dom_fun_upd dom_empty insert_iff empty_iff option.simps
          simp_thms if_False)
qed

lemma reverse_dom_iff:
  assumes "pelias_reverse_params ff pystr point circle_radius sources layers country size'
             = Inr q"
  shows "k \<in> dom q \<longleftrightarrow>
     truthy size' \<and> k = ''size''
     \<or> truthy country \<and> k = ''country''
     \<or> truthy layers \<and> k = ''layers''
     \<or> truthy sources \<and> k = ''sources''
     \<or> truthy circle_radius \<and> k = ''boundary.circle.radius''
     \<or> k = ''point.lat''
     \<or> k = ''point.lon''"
proof -
  from assms have q: "q =
     upd_if (truthy size') ''size'' size'
    (upd_if (truthy country) ''country'' country
    (upd_if (truthy layers) ''layers'' (PStr (join '','' (map the_str (items layers))))
    (upd_if (truthy sources) ''sources'' (PStr (join '','' (map the_str (items sources))))
    (upd_if (truthy circle_radius) ''boundary.circle.radius'' (PStr (pystr circle_radius))
      [''point.lon'' \<mapsto> PStr (fst (projr (point_check ff point))),
       ''point.lat'' \<mapsto> PStr (snd (projr (point_check ff point)))]))))"
    by (simp only: pelias_reverse_params_Inr_iff)
  show ?thesis
    by (subst q)
       (simp only: upd_if_dom_iff dom_fun_upd dom_empty insert_iff empty_iff option.simps
          simp_thms if_False)
qed

subsection \<open>Evaluation at concrete arguments\<close>

lemma frac_digits_numeral:
  "frac_digits (numeral k) f = frac_digits (pred_numeral k) (f div 10) @ [digit_char (f mod 10)]"
  by (metis frac_digits.simps(2) numeral_eq_Suc)

lemmas fmt_defs = decimal_str_def rstrip_def nat_digits.simps digit_char_def
  frac_digits_numeral Let_def

lemma fmt_examples:
  "decimal_str 834 2 = ''8.34''"
  "decimal_str 4823 2 = ''48.23''"
  "decimal_str 834234 5 = ''8.34234''"
  "decimal_str 4823424 5 = ''48.23424''"
  "decimal_str 105 (Suc 0) = ''10.5''"
  "decimal_str 495 (Suc 0) = ''49.5''"
  "decimal_str 0 0 = ''0''"
  "decimal_str 50 0 = ''50''"
  by (simp_all add: fmt_defs)

lemmas eval_defs =
  pelias_search_params_def pelias_structured_params_def pelias_reverse_params_def
  opt_point_param_def point_param_def float_param_def raw_param_def strof_param_def
  str_param_def list_param_def sources_param_def layers_param_def all_in_def comma_list_def
  valid_sources_def valid_layers_def List.member_iff
  rect_min_lon_key_def rect_min_lat_key_def rect_max_lon_key_def
  sources_value_msg_def layers_value_msg_def repr_str_list_def repr_str_def fmt_examples

section \<open>Which keys are sent\<close>

text \<open>
  Claim C1, as amended. Whenever an operation reaches \<^verbatim>\<open>client.request\<close>, the keys of
  the mapping it passes are exactly the required key(s), which are present whatever
  the value of the required input (\<^verbatim>\<open>text\<close> for the two searches, \<^verbatim>\<open>point.lon\<close> and
  \<^verbatim>\<open>point.lat\<close> for reverse geocode), together with the key(s) of every optional
  input that is truthy. An optional input that is absent or falsy produces no key.
  In free-text search \<^verbatim>\<open>rect_max_x\<close> and \<^verbatim>\<open>rect_max_y\<close> share one key.
\<close>

theorem params_keys_required_always_optional_iff_truthy:
  "(pelias_search_params ff text focus_point rect_min_x rect_min_y rect_max_x rect_max_y
      circle_point circle_radius sources layers country size' = Inr q \<longrightarrow>
    dom q = {''text''}
      \<union> (if truthy focus_point then {''focus.point.lon'', ''focus.point.lat''} else {})
      \<union> (if truthy rect_min_x then {rect_min_lon_key} else {})
      \<union> (if truthy rect_min_y then {rect_min_lat_key} else {})
      \<union> (if truthy rect_max_x \<or> truthy rect_max_y then {rect_max_lon_key} else {})
      \<union> (if truthy circle_point then {''boundary.circle.lon'', ''boundary.circle.lat''} else {})
      \<union> (if truthy circle_radius then {''boundary.circle.radius''} else {})
      \<union> (if truthy sources then {''sources''} else {})
      \<union> (if truthy layers then {''layers''} else {})
      \<union> (if truthy country then {''country''} else {})
      \<union> (if truthy size' then {''size''} else {}))
   \<and> (pelias_structured_params text address neighbourhood borough locality county region
      postalcode country = Inr q' \<longrightarrow>
    dom q' = {''text''}
      \<union> (if truthy address then {''address''} else {})
      \<union> (if truthy neighbourhood then {''neighbourhood''} else {})
      \<union> (if truthy borough then {''borough''} else {})
      \<union> (if truthy locality then {''locality''} else {})
      \<union> (if truthy county then {''county''} else {})
      \<union> (if truthy region then {''region''} else {})
      \<union> (if truthy postalcode then {''postalcode''} else {})
      \<union> (if truthy country then {''country''} else {}))
   \<and> (pelias_reverse_params ff pystr point circle_radius sources layers country size' = Inr q'' \<longrightarrow>
    dom q'' = {''point.lon'', ''point.lat''}
      \<union> (if truthy circle_radius then {''boundary.circle.radius''} else {})
      \<union> (if truthy sources then {''sources''} else {})
      \<union> (if truthy layers then {''layers''} else {})
      \<union> (if truthy country then {''country''} else {})
      \<union> (if truthy size' then {''size''} else {}))"
proof (intro conjI impI)
  assume a: "pelias_search_params ff text focus_point rect_min_x rect_min_y rect_max_x
      rect_max_y circle_point circle_radius sources layers country size' = Inr q"
  show "dom q = {''text''}
      \<union> (if truthy focus_point then {''focus.point.lon'', ''focus.point.lat''} else {})
      \<union> (if truthy rect_min_x then {rect_min_lon_key} else {})
      \<union> (if truthy rect_min_y then {rect_min_lat_key} else {})
      \<union> (if truthy rect_max_x \<or> truthy rect_max_y then {rect_max_lon_key} else {})
      \<union> (if truthy circle_point then {''boundary.circle.lon'', ''boundary.circle.lat''} else {})
      \<union> (if truthy circle_radius then {''boundary.circle.radius''} else {})
      \<union> (if truthy sources then {''sources''} else {})
      \<union> (if truthy layers then {''layers''} else {})
      \<union> (if truthy country then {''country''} else {})
      \<union> (if truthy size' then {''size''} else {})"
    apply (rule set_eqI)
    apply (simp only: search_dom_iff [OF a] Un_iff mem_if_empty insert_iff empty_iff simp_thms)
    apply argo
    done
next
  assume a: "pelias_structured_params text address neighbourhood borough locality county
      region postalcode country = Inr q'"
  show "dom q' = {''text''}
      \<union> (if truthy address then {''address''} else {})
      \<union> (if truthy neighbourhood then {''neighbourhood''} else {})
      \<union> (if truthy borough then {''borough''} else {})
      \<union> (if truthy locality then {''locality''} else {})
      \<union> (if truthy county then {''county''} else {})
      \<union> (if truthy region then {''region''} else {})
      \<union> (if truthy postalcode then {''postalcode''} else {})
      \<union> (if truthy country then {''country''} else {})"
    apply (rule set_eqI)
    apply (simp only: structured_dom_iff [OF a] Un_iff mem_if_empty insert_iff empty_iff simp_thms)
    apply argo
    done
next
  assume a: "pelias_reverse_params ff pystr point circle_radius sources layers country size'
      = Inr q''"
  show "dom q'' = {''point.lon'', ''point.lat''}
      \<union> (if truthy circle_radius then {''boundary.circle.radius''} else {})
      \<union> (if truthy sources then {''sources''} else {})
      \<union> (if truthy layers then {''layers''} else {})
      \<union> (if truthy country then {''country''} else {})
      \<union> (if truthy size' then {''size''} else {})"
    apply (rule set_eqI)
    apply (simp only: reverse_dom_iff [OF a] Un_iff mem_if_empty insert_iff empty_iff simp_thms)
    apply argo
    done
qed

text \<open>
  The amended statement at a free-text search with a focus point, a maximal longitude,
  a radius, two sources, a country, and a zero \<^verbatim>\<open>rect_min_y\<close> and an empty \<^verbatim>\<open>layers\<close>
  list (both falsy, both omitted); at a structured search with an empty \<^verbatim>\<open>borough\<close>;
  and at a reverse geocode.
\<close>

theorem params_keys_witness:
  "pelias_search_params spec_format_float (PStr ''Heidelberg'')
        (PTuple [PFloat 834234 5, PFloat 4823424 5]) PNone (PInt 0) (PFloat 105 1) PNone
        PNone (PInt 50) (PList [PStr ''osm'', PStr ''gn'']) (PList []) (PStr ''de'') PNone
      = Inr [''text'' \<mapsto> PStr ''Heidelberg'', ''focus.point.lon'' \<mapsto> PStr ''8.34234'',
             ''focus.point.lat'' \<mapsto> PStr ''48.23424'',
             ''boundary.rect.max_lon'' @ [CHR 0x09] \<mapsto> PStr ''10.5'',
             ''boundary.circle.radius'' \<mapsto> PInt 50,
             ''sources'' \<mapsto> PStr ''osm,gn'', ''country'' \<mapsto> PStr ''de'']
   \<and> dom [''text'' \<mapsto> PStr ''Heidelberg'', ''focus.point.lon'' \<mapsto> PStr ''8.34234'',
             ''focus.point.lat'' \<mapsto> PStr ''48.23424'',
             ''boundary.rect.max_lon'' @ [CHR 0x09] \<mapsto> PStr ''10.5'',
             ''boundary.circle.radius'' \<mapsto> PInt 50,
             ''sources'' \<mapsto> PStr ''osm,gn'', ''country'' \<mapsto> PStr ''de'']
       = {''country'', ''sources'', ''boundary.circle.radius'', rect_max_lon_key,
          ''focus.point.lon'', ''focus.point.lat'', ''text''}
   \<and> pelias_structured_params (PStr ''Heidelberg'') (PStr ''Berliner Str. 45'') PNone
        (PStr []) PNone PNone PNone (PStr ''69120'') (PStr ''de'')
      = Inr [''text'' \<mapsto> PStr ''Heidelberg'', ''address'' \<mapsto> PStr ''Berliner Str. 45'',
             ''postalcode'' \<mapsto> PStr ''69120'', ''country'' \<mapsto> PStr ''de'']
   \<and> dom [''text'' \<mapsto> PStr ''Heidelberg'', ''address'' \<mapsto> PStr ''Berliner Str. 45'',
             ''postalcode'' \<mapsto> PStr ''69120'', ''country'' \<mapsto> PStr ''de'']
       = {''country'', ''postalcode'', ''address'', ''text''}
   \<and> pelias_reverse_params spec_format_float int_str (PList [PFloat 834 2, PFloat 4823 2])
        (PInt 50) (PList [PStr ''osm'', PStr ''gn'']) (PList []) (PStr ''de'') PNone
      = Inr [''point.lon'' \<mapsto> PStr ''8.34'', ''point.lat'' \<mapsto> PStr ''48.23'',
             ''boundary.circle.radius'' \<mapsto> PStr ''50'',
             ''sources'' \<mapsto> PStr ''osm,gn'', ''country'' \<mapsto> PStr ''de'']
   \<and> dom [''point.lon'' \<mapsto> PStr ''8.34'', ''point.lat'' \<mapsto> PStr ''48.23'',
             ''boundary.circle.radius'' \<mapsto> PStr ''50'',
             ''sources'' \<mapsto> PStr ''osm,gn'', ''country'' \<mapsto> PStr ''de'']
       = {''country'', ''sources'', ''boundary.circle.radius'', ''point.lon'', ''point.lat''}"
proof -
  have e1: "pelias_search_params spec_format_float (PStr ''Heidelberg'')
        (PTuple [PFloat 834234 5, PFloat 4823424 5]) PNone (PInt 0) (PFloat 105 1) PNone
        PNone (PInt 50) (PList [PStr ''osm'', PStr ''gn'']) (PList []) (PStr ''de'') PNone
      = Inr [''text'' \<mapsto> PStr ''Heidelberg'', ''focus.point.lon'' \<mapsto> PStr ''8.34234'',
             ''focus.point.lat'' \<mapsto> PStr ''48.23424'',
             ''boundary.rect.max_lon'' @ [CHR 0x09] \<mapsto> PStr ''10.5'',
             ''boundary.circle.radius'' \<mapsto> PInt 50,
             ''sources'' \<mapsto> PStr ''osm,gn'', ''country'' \<mapsto> PStr ''de'']"
    by (simp add: eval_defs)
  have e2: "pelias_structured_params (PStr ''Heidelberg'') (PStr ''Berliner Str. 45'') PNone
        (PStr []) PNone PNone PNone (PStr ''69120'') (PStr ''de'')
      = Inr [''text'' \<mapsto> PStr ''Heidelberg'', ''address'' \<mapsto> PStr ''Berliner Str. 45'',
             ''postalcode'' \<mapsto> PStr ''69120'', ''country'' \<mapsto> PStr ''de'']"
    by (simp add: eval_defs)
  have e3: "pelias_reverse_params spec_format_float int_str (PList [PFloat 834 2, PFloat 4823 2])
        (PInt 50) (PList [PStr ''osm'', PStr ''gn'']) (PList []) (PStr ''de'') PNone
      = Inr [''point.lon'' \<mapsto> PStr ''8.34'', ''point.lat'' \<mapsto> PStr ''48.23'',
             ''boundary.circle.radius'' \<mapsto> PStr ''50'',
             ''sources'' \<mapsto> PStr ''osm,gn'', ''country'' \<mapsto> PStr ''de'']"
    by (simp add: eval_defs)
  from params_keys_required_always_optional_iff_truthy
      [of spec_format_float "PStr ''Heidelberg''"
          "PTuple [PFloat 834234 5, PFloat 4823424 5]" PNone "PInt 0" "PFloat 105 1" PNone
          PNone "PInt 50" "PList [PStr ''osm'', PStr ''gn'']" "PList []" "PStr ''de''" PNone
          "[''text'' \<mapsto> PStr ''Heidelberg'', ''focus.point.lon'' \<mapsto> PStr ''8.34234'',
             ''focus.point.lat'' \<mapsto> PStr ''48.23424'',
             ''boundary.rect.max_lon'' @ [CHR 0x09] \<mapsto> PStr ''10.5'',
             ''boundary.circle.radius'' \<mapsto> PInt 50,
             ''sources'' \<mapsto> PStr ''osm,gn'', ''country'' \<mapsto> PStr ''de'']"
          "PStr ''Berliner Str. 45''" PNone "PStr []" PNone PNone PNone "PStr ''69120''"
          "[''text'' \<mapsto> PStr ''Heidelberg'', ''address'' \<mapsto> PStr ''Berliner Str. 45'',
             ''postalcode'' \<mapsto> PStr ''69120'', ''country'' \<mapsto> PStr ''de'']"
          int_str "PList [PFloat 834 2, PFloat 4823 2]"
          "[''point.lon'' \<mapsto> PStr ''8.34'', ''point.lat'' \<mapsto> PStr ''48.23'',
             ''boundary.circle.radius'' \<mapsto> PStr ''50'',
             ''sources'' \<mapsto> PStr ''osm,gn'', ''country'' \<mapsto> PStr ''de'']"]
  show ?thesis
    unfolding e1 e2 e3 by (simp del: dom_fun_upd)
qed

text \<open>
  Claim C1 as stated fails for the required inputs: an empty \<^verbatim>\<open>text\<close> is sent as the
  empty string, \<^verbatim>\<open>text=None\<close> is sent as \<^verbatim>\<open>None\<close>, and the zero coordinates of
  \<^verbatim>\<open>point=(0, 0)\<close> are formatted and sent.
\<close>

theorem falsy_required_inputs_still_sent:
  "\<not> truthy (PStr []) \<and>
   pelias_search_params spec_format_float (PStr []) PNone PNone PNone PNone PNone PNone PNone
     PNone PNone PNone PNone = Inr [''text'' \<mapsto> PStr []] \<and>
   pelias_structured_params (PNone) PNone PNone PNone PNone PNone PNone PNone PNone
     = Inr [''text'' \<mapsto> PNone] \<and>
   \<not> truthy (PInt 0) \<and>
   pelias_reverse_params spec_format_float int_str (PTuple [PInt 0, PInt 0]) PNone PNone PNone
     PNone PNone = Inr [''point.lon'' \<mapsto> PStr ''0'', ''point.lat'' \<mapsto> PStr ''0'']"
  by (simp add: eval_defs)

section \<open>The rectangle bounds of free-text search\<close>

lemma search_max_lon_value:
  assumes "pelias_search_params ff text focus_point rect_min_x rect_min_y rect_max_x
             rect_max_y circle_point circle_radius sources layers country size' = Inr q"
  shows "q rect_max_lon_key =
     (if truthy rect_max_y then Some (PStr (projr (ff rect_max_y)))
      else if truthy rect_max_x then Some (PStr (projr (ff rect_max_x))) else None)"
  using assms unfolding pelias_search_params_Inr_iff
  by (simp add: upd_if_apply rect_max_lon_key_def rect_min_lon_key_def rect_min_lat_key_def)

text \<open>
  Claim C2. In free-text search a truthy \<^verbatim>\<open>rect_max_y\<close> is written under the key that
  \<^verbatim>\<open>rect_max_x\<close> uses (line 121 repeats the key of line 118): when \<^verbatim>\<open>rect_max_y\<close> is
  truthy that key holds the formatted \<^verbatim>\<open>rect_max_y\<close>, whether or not \<^verbatim>\<open>rect_max_x\<close> was
  given; the formatted \<^verbatim>\<open>rect_max_x\<close> is only there when \<^verbatim>\<open>rect_max_y\<close> is falsy. No
  max-latitude key appears, with or without the TAB, and the mapping has no key
  outside the thirteen listed, so there is one max-bound key at most.
\<close>

theorem rect_max_y_shares_max_lon_key:
  assumes "pelias_search_params ff text focus_point rect_min_x rect_min_y rect_max_x
             rect_max_y circle_point circle_radius sources layers country size' = Inr q"
  shows "(truthy rect_max_y \<longrightarrow>
            (\<exists>s. ff rect_max_y = Inr s \<and> q rect_max_lon_key = Some (PStr s)))
       \<and> (truthy rect_max_x \<and> \<not> truthy rect_max_y \<longrightarrow>
            (\<exists>s. ff rect_max_x = Inr s \<and> q rect_max_lon_key = Some (PStr s)))
       \<and> ''boundary.rect.max_lat'' \<notin> dom q
       \<and> ''boundary.rect.max_lat'' @ [CHR 0x09] \<notin> dom q
       \<and> dom q \<subseteq> {''text'', ''focus.point.lon'', ''focus.point.lat'', rect_min_lon_key,
                    rect_min_lat_key, rect_max_lon_key, ''boundary.circle.lon'',
                    ''boundary.circle.lat'', ''boundary.circle.radius'', ''sources'',
                    ''layers'', ''country'', ''size''}"
proof (intro conjI impI)
  assume t: "truthy rect_max_y"
  with assms have "\<not> isl (ff rect_max_y)"
    by (simp add: pelias_search_params_Inr_iff)
  then have "ff rect_max_y = Inr (projr (ff rect_max_y))" by simp
  moreover from t have "q rect_max_lon_key = Some (PStr (projr (ff rect_max_y)))"
    by (simp add: search_max_lon_value [OF assms])
  ultimately show "\<exists>s. ff rect_max_y = Inr s \<and> q rect_max_lon_key = Some (PStr s)"
    by blast
next
  assume t: "truthy rect_max_x \<and> \<not> truthy rect_max_y"
  with assms have "\<not> isl (ff rect_max_x)"
    by (simp add: pelias_search_params_Inr_iff)
  then have "ff rect_max_x = Inr (projr (ff rect_max_x))" by simp
  moreover from t have "q rect_max_lon_key = Some (PStr (projr (ff rect_max_x)))"
    by (simp add: search_max_lon_value [OF assms])
  ultimately show "\<exists>s. ff rect_max_x = Inr s \<and> q rect_max_lon_key = Some (PStr s)"
    by blast
next
  show "''boundary.rect.max_lat'' \<notin> dom q"
    by (simp add: search_dom_iff [OF assms] rect_max_lon_key_def rect_min_lon_key_def
        rect_min_lat_key_def)
next
  show "''boundary.rect.max_lat'' @ [CHR 0x09] \<notin> dom q"
    by (simp add: search_dom_iff [OF assms] rect_max_lon_key_def rect_min_lon_key_def
        rect_min_lat_key_def)
next
  show "dom q \<subseteq> {''text'', ''focus.point.lon'', ''focus.point.lat'', rect_min_lon_key,
                    rect_min_lat_key, rect_max_lon_key, ''boundary.circle.lon'',
                    ''boundary.circle.lat'', ''boundary.circle.radius'', ''sources'',
                    ''layers'', ''country'', ''size''}"
    apply (rule subsetI)
    apply (simp only: search_dom_iff [OF assms] insert_iff empty_iff simp_thms)
    apply argo
    done
qed


text \<open>Both bounds given: the one key holds the latitude 49.5, the longitude 10.5 is lost.\<close>

theorem rect_max_y_witness:
  "pelias_search_params spec_format_float (PStr ''Heidelberg'') PNone PNone PNone
      (PFloat 105 1) (PFloat 495 1) PNone PNone PNone PNone PNone PNone
     = Inr [''text'' \<mapsto> PStr ''Heidelberg'', rect_max_lon_key \<mapsto> PStr ''49.5'']
   \<and> truthy (PFloat 495 1)
   \<and> spec_format_float (PFloat 495 1) = Inr ''49.5''
   \<and> [''text'' \<mapsto> PStr ''Heidelberg'', rect_max_lon_key \<mapsto> PStr ''49.5''] rect_max_lon_key
       = Some (PStr ''49.5'')
   \<and> dom [''text'' \<mapsto> PStr ''Heidelberg'', rect_max_lon_key \<mapsto> PStr ''49.5'']
       = {rect_max_lon_key, ''text''}"
proof -
  have e: "pelias_search_params spec_format_float (PStr ''Heidelberg'') PNone PNone PNone
      (PFloat 105 1) (PFloat 495 1) PNone PNone PNone PNone PNone PNone
     = Inr [''text'' \<mapsto> PStr ''Heidelberg'', rect_max_lon_key \<mapsto> PStr ''49.5'']"
    by (simp add: eval_defs)
  from rect_max_y_shares_max_lon_key [OF e] e show ?thesis
    by (simp add: fmt_examples)
qed

text \<open>
  Claim C3 says the rectangle keys are exactly \<^verbatim>\<open>boundary.rect.min_lon\<close>,
  \<^verbatim>\<open>boundary.rect.min_lat\<close> and \<^verbatim>\<open>boundary.rect.max_lon\<close>. The source writes each of them
  with a TAB character before the closing quote, so the keys sent end in a TAB and the
  exact keys are absent from the mapping. The call evaluated here is
  \<^verbatim>\<open>pelias_search(client, 'Heidelberg', rect_min_x=8.34, rect_min_y=48.23, rect_max_x=10.5)\<close>.
\<close>

theorem rect_keys_carry_trailing_tab:
  "pelias_search_params spec_format_float (PStr ''Heidelberg'') PNone (PFloat 834 2)
      (PFloat 4823 2) (PFloat 105 1) PNone PNone PNone PNone PNone PNone PNone
     = Inr [''text'' \<mapsto> PStr ''Heidelberg'',
            ''boundary.rect.min_lon'' @ [CHR 0x09] \<mapsto> PStr ''8.34'',
            ''boundary.rect.min_lat'' @ [CHR 0x09] \<mapsto> PStr ''48.23'',
            ''boundary.rect.max_lon'' @ [CHR 0x09] \<mapsto> PStr ''10.5'']
   \<and> [''text'' \<mapsto> PStr ''Heidelberg'',
       ''boundary.rect.min_lon'' @ [CHR 0x09] \<mapsto> PStr ''8.34'',
       ''boundary.rect.min_lat'' @ [CHR 0x09] \<mapsto> PStr ''48.23'',
       ''boundary.rect.max_lon'' @ [CHR 0x09] \<mapsto> PStr ''10.5''] ''boundary.rect.min_lon'' = None
   \<and> [''text'' \<mapsto> PStr ''Heidelberg'',
       ''boundary.rect.min_lon'' @ [CHR 0x09] \<mapsto> PStr ''8.34'',
       ''boundary.rect.min_lat'' @ [CHR 0x09] \<mapsto> PStr ''48.23'',
       ''boundary.rect.max_lon'' @ [CHR 0x09] \<mapsto> PStr ''10.5''] ''boundary.rect.min_lat'' = None
   \<and> [''text'' \<mapsto> PStr ''Heidelberg'',
       ''boundary.rect.min_lon'' @ [CHR 0x09] \<mapsto> PStr ''8.34'',
       ''boundary.rect.min_lat'' @ [CHR 0x09] \<mapsto> PStr ''48.23'',
       ''boundary.rect.max_lon'' @ [CHR 0x09] \<mapsto> PStr ''10.5''] ''boundary.rect.max_lon'' = None"
  by (simp add: eval_defs)

section \<open>Validation\<close>

text \<open>
  Reverse geocode rejects a \<^verbatim>\<open>point\<close> that is not a sequence before anything else
  (lines 297-298), and the client is not called.
\<close>

lemma reverse_point_not_sequence:
  "\<not> is_list point \<Longrightarrow>
   pelias_reverse ff pystr client point circle_radius sources layers country size' dry_run s
     = (Inl (TypeError ''Point must be a list/tuple of coordinates.''), s)"
  by (simp add: pelias_reverse_def pelias_reverse_params_def delegate_def)

text \<open>
  Claim C4 says a point-shaped argument that is not a sequence raises an invalid-type
  error before the client is called. \<^verbatim>\<open>pelias_reverse\<close> checks \<^verbatim>\<open>point\<close> with
  \<^verbatim>\<open>convert._is_list\<close>; \<^verbatim>\<open>pelias_search\<close> does not check \<^verbatim>\<open>focus_point\<close> or
  \<^verbatim>\<open>circle_point\<close>, it only subscripts them. A dictionary with the keys 0 and 1 is not a
  sequence, is truthy and can be subscripted: the call
  \<^verbatim>\<open>pelias_search(client, 'Heidelberg', focus_point={0: 8.34, 1: 48.23},
  circle_point={0: 8.34, 1: 48.23})\<close> raises nothing and the request reaches the client.
\<close>

theorem focus_point_dict_reaches_client:
  "\<not> is_list (PDict [(PInt 0, PFloat 834 2), (PInt 1, PFloat 4823 2)])
   \<and> truthy (PDict [(PInt 0, PFloat 834 2), (PInt 1, PFloat 4823 2)])
   \<and> pelias_search spec_format_float recording_client (PStr ''Heidelberg'')
       (PDict [(PInt 0, PFloat 834 2), (PInt 1, PFloat 4823 2)]) PNone PNone PNone PNone
       (PDict [(PInt 0, PFloat 834 2), (PInt 1, PFloat 4823 2)]) PNone PNone PNone PNone
       PNone PNone []
     = (Inr PNone,
        [\<lparr>req_path = ''/geocode/search'',
          req_params = [''text'' \<mapsto> PStr ''Heidelberg'',
                        ''focus.point.lon'' \<mapsto> PStr ''8.34'',
                        ''focus.point.lat'' \<mapsto> PStr ''48.23'',
                        ''boundary.circle.lon'' \<mapsto> PStr ''8.34'',
                        ''boundary.circle.lat'' \<mapsto> PStr ''48.23''],
          req_dry_run = PNone\<rparr>])"
  by (simp add: pelias_search_def delegate_def recording_client_def eval_defs)

text \<open>
  Claim C5 says every invalid-value error carries the allowed tokens in its message.
  The template of the \<^verbatim>\<open>layers\<close> error (lines 141 and 317) has no placeholder, so
  \<^verbatim>\<open>format\<close> drops the list: the message is \<^verbatim>\<open>'Source must be one or more of '\<close>, in
  both operations, and it names the source, not the layer.
\<close>

theorem invalid_layer_message_lists_nothing:
  "pelias_search_params spec_format_float (PStr ''Heidelberg'') PNone PNone PNone PNone
      PNone PNone PNone PNone (PList [PStr ''bogus'']) PNone PNone
     = Inl (ValueError ''Source must be one or more of '')
   \<and> pelias_reverse_params spec_format_float int_str (PList [PFloat 834 2, PFloat 4823 2])
      PNone PNone (PList [PStr ''bogus'']) PNone PNone
     = Inl (ValueError ''Source must be one or more of '')"
  by (simp add: eval_defs)

text \<open>
  Claim C6. When the arguments of an operation fail validation, that is when the body
  raises before its final \<^verbatim>\<open>return\<close>, the operation yields that exception and the
  client is left in the state it was in: \<^verbatim>\<open>client.request\<close> is not called. This holds
  for every client and every state of it.
\<close>

theorem no_request_when_validation_fails:
  "(pelias_search_params ff text focus_point rect_min_x rect_min_y rect_max_x rect_max_y
      circle_point circle_radius sources layers country size' = Inl e \<longrightarrow>
    pelias_search ff client text focus_point rect_min_x rect_min_y rect_max_x rect_max_y
      circle_point circle_radius sources layers country size' dry_run s = (Inl e, s))
   \<and> (pelias_structured_params text address neighbourhood borough locality county region
      postalcode country = Inl e' \<longrightarrow>
    pelias_structured client text address neighbourhood borough locality county region
      postalcode country dry_run s = (Inl e', s))
   \<and> (pelias_reverse_params ff pystr point circle_radius sources layers country size'
      = Inl e'' \<longrightarrow>
    pelias_reverse ff pystr client point circle_radius sources layers country size' dry_run s
      = (Inl e'', s))"
  by (simp add: pelias_search_def pelias_structured_def pelias_reverse_def delegate_def)

text \<open>
  Three failing calls with the recording client and an empty log: \<^verbatim>\<open>sources='osm'\<close> (a
  bare string) in free-text search, \<^verbatim>\<open>address=42\<close> in structured search, and a string
  as \<^verbatim>\<open>point\<close> in reverse geocode. The log stays empty.
\<close>

theorem no_request_witness:
  "pelias_search_params spec_format_float (PStr ''Heidelberg'') PNone PNone PNone PNone PNone
      PNone PNone (PStr ''osm'') PNone PNone PNone = Inl (TypeError ''Data source invalid.'')
   \<and> pelias_search spec_format_float recording_client (PStr ''Heidelberg'') PNone PNone PNone
      PNone PNone PNone PNone (PStr ''osm'') PNone PNone PNone PNone []
     = (Inl (TypeError ''Data source invalid.''), [])
   \<and> pelias_structured_params (PStr ''Heidelberg'') (PInt 42) PNone PNone PNone PNone PNone
      PNone PNone = Inl (TypeError ''Address must be a string.'')
   \<and> pelias_structured recording_client (PStr ''Heidelberg'') (PInt 42) PNone PNone PNone
      PNone PNone PNone PNone PNone []
     = (Inl (TypeError ''Address must be a string.''), [])
   \<and> pelias_reverse_params spec_format_float int_str (PStr ''8.34,48.23'') PNone
      (PStr ''osm'') PNone PNone PNone
     = Inl (TypeError ''Point must be a list/tuple of coordinates.'')
   \<and> pelias_reverse spec_format_float int_str recording_client (PStr ''8.34,48.23'') PNone
      (PStr ''osm'') PNone PNone PNone PNone []
     = (Inl (TypeError ''Point must be a list/tuple of coordinates.''), [])"
proof -
  have e1: "pelias_search_params spec_format_float (PStr ''Heidelberg'') PNone PNone PNone
      PNone PNone PNone PNone (PStr ''osm'') PNone PNone PNone
      = Inl (TypeError ''Data source invalid.'')"
    by (simp add: eval_defs)
  have e2: "pelias_structured_params (PStr ''Heidelberg'') (PInt 42) PNone PNone PNone PNone
      PNone PNone PNone = Inl (TypeError ''Address must be a string.'')"
    by (simp add: eval_defs)
  have e3: "pelias_reverse_params spec_format_float int_str (PStr ''8.34,48.23'') PNone
      (PStr ''osm'') PNone PNone PNone
     = Inl (TypeError ''Point must be a list/tuple of coordinates.'')"
    by (simp add: eval_defs)
  from no_request_when_validation_fails
      [of spec_format_float "PStr ''Heidelberg''" PNone PNone PNone PNone PNone PNone PNone
          "PStr ''osm''" PNone PNone PNone "TypeError ''Data source invalid.''"
          recording_client PNone "[]"
          "PInt 42" PNone PNone PNone PNone PNone PNone
          "TypeError ''Address must be a string.''"
          int_str "PStr ''8.34,48.23''"
          "TypeError ''Point must be a list/tuple of coordinates.''"]
    e1 e2 e3
  show ?thesis by simp
qed

section \<open>Defaults and endpoint paths\<close>

text \<open>
  Claim C7. With every optional parameter left at \<^verbatim>\<open>None\<close>, free-text search calls the
  client with the path \<^verbatim>\<open>/geocode/search\<close> and the mapping \<^verbatim>\<open>{'text': text}\<close>, structured
  search with \<^verbatim>\<open>/geocode/search/structured\<close> and the same mapping, and reverse
  geocode, for a sequence \<^verbatim>\<open>point\<close> whose two coordinates the formatter accepts, with
  \<^verbatim>\<open>/geocode/reverse\<close> and exactly \<^verbatim>\<open>point.lon\<close> and \<^verbatim>\<open>point.lat\<close> holding the formatted
  coordinates. For \<^verbatim>\<open>point=(8.34, 48.23)\<close> and a formatter that renders the two numbers
  as \<^verbatim>\<open>"8.34"\<close> and \<^verbatim>\<open>"48.23"\<close> the mapping is exactly
  \<^verbatim>\<open>{"point.lon": "8.34", "point.lat": "48.23"}\<close>. In each case the operation returns
  what the client returns.
\<close>

theorem defaults_send_required_keys_to_fixed_paths:
  "pelias_search ff client text PNone PNone PNone PNone PNone PNone PNone PNone PNone PNone
      PNone dry_run s
     = client ''/geocode/search'' [''text'' \<mapsto> text] dry_run s
   \<and> pelias_structured client text PNone PNone PNone PNone PNone PNone PNone PNone dry_run s
     = client ''/geocode/search/structured'' [''text'' \<mapsto> text] dry_run s
   \<and> (is_list point \<and> subscript point 0 = Inr x \<and> ff x = Inr lon
        \<and> subscript point 1 = Inr y \<and> ff y = Inr lat \<longrightarrow>
      pelias_reverse ff pystr client point PNone PNone PNone PNone PNone dry_run s
        = client ''/geocode/reverse'' [''point.lon'' \<mapsto> PStr lon, ''point.lat'' \<mapsto> PStr lat]
            dry_run s)
   \<and> (ff (PFloat 834 2) = Inr ''8.34'' \<and> ff (PFloat 4823 2) = Inr ''48.23'' \<longrightarrow>
      pelias_reverse ff pystr client (PTuple [PFloat 834 2, PFloat 4823 2]) PNone PNone PNone
          PNone PNone dry_run s
        = client ''/geocode/reverse''
            [''point.lon'' \<mapsto> PStr ''8.34'', ''point.lat'' \<mapsto> PStr ''48.23''] dry_run s)"
  by (simp add: pelias_search_def pelias_structured_def pelias_reverse_def delegate_def
      pelias_search_params_def pelias_structured_params_def pelias_reverse_params_def
      opt_point_param_def point_param_def float_param_def raw_param_def strof_param_def
      str_param_def list_param_def sources_param_def layers_param_def)

text \<open>
  With the formatter modelled from the spec and the recording client: the one request
  recorded for \<^verbatim>\<open>point=(8.34, 48.23)\<close>, and for the list \<^verbatim>\<open>[0, 49.5]\<close>.
\<close>

theorem defaults_witness:
  "spec_format_float (PFloat 834 2) = Inr ''8.34''
   \<and> spec_format_float (PFloat 4823 2) = Inr ''48.23''
   \<and> pelias_reverse spec_format_float int_str recording_client
        (PTuple [PFloat 834 2, PFloat 4823 2]) PNone PNone PNone PNone PNone PNone []
     = (Inr PNone,
        [\<lparr>req_path = ''/geocode/reverse'',
          req_params = [''point.lon'' \<mapsto> PStr ''8.34'', ''point.lat'' \<mapsto> PStr ''48.23''],
          req_dry_run = PNone\<rparr>])
   \<and> is_list (PList [PInt 0, PFloat 495 1])
   \<and> pelias_reverse spec_format_float int_str recording_client
        (PList [PInt 0, PFloat 495 1]) PNone PNone PNone PNone PNone PNone []
     = (Inr PNone,
        [\<lparr>req_path = ''/geocode/reverse'',
          req_params = [''point.lon'' \<mapsto> PStr ''0'', ''point.lat'' \<mapsto> PStr ''49.5''],
          req_dry_run = PNone\<rparr>])"
proof -
  have f: "spec_format_float (PFloat 834 2) = Inr ''8.34''"
    "spec_format_float (PFloat 4823 2) = Inr ''48.23''"
    "spec_format_float (PInt 0) = Inr ''0''"
    "spec_format_float (PFloat 495 1) = Inr ''49.5''"
    by (simp_all add: fmt_examples)
  from defaults_send_required_keys_to_fixed_paths
      [of spec_format_float recording_client PNone PNone "[]" "PList [PInt 0, PFloat 495 1]"
          "PInt 0" "''0''" "PFloat 495 1" "''49.5''" int_str] f
  show ?thesis by (simp add: recording_client_def)
qed

section \<open>The required text argument\<close>

text \<open>
  Claim C9. Neither search validates \<^verbatim>\<open>text\<close>: whether a call raises, and what it
  raises, does not depend on \<^verbatim>\<open>text\<close> (replacing it by any other value \<open>text'\<close> gives
  the same exception), and when the call raises nothing the mapping holds the value
  itself, of whatever type, under \<^verbatim>\<open>text\<close>.
\<close>

theorem text_is_never_validated:
  "(pelias_search_params ff text focus_point rect_min_x rect_min_y rect_max_x rect_max_y
      circle_point circle_radius sources layers country size' = Inl e
    \<longleftrightarrow> pelias_search_params ff text' focus_point rect_min_x rect_min_y rect_max_x rect_max_y
      circle_point circle_radius sources layers country size' = Inl e)
   \<and> (pelias_search_params ff text focus_point rect_min_x rect_min_y rect_max_x rect_max_y
      circle_point circle_radius sources layers country size' = Inr q
    \<longrightarrow> q ''text'' = Some text)
   \<and> (pelias_structured_params text address neighbourhood borough locality county region
      postalcode country = Inl e
    \<longleftrightarrow> pelias_structured_params text' address neighbourhood borough locality county region
      postalcode country = Inl e)
   \<and> (pelias_structured_params text address neighbourhood borough locality county region
      postalcode country = Inr q'
    \<longrightarrow> q' ''text'' = Some text)"
proof (intro conjI impI)
  show "pelias_search_params ff text focus_point rect_min_x rect_min_y rect_max_x rect_max_y
      circle_point circle_radius sources layers country size' = Inl e
    \<longleftrightarrow> pelias_search_params ff text' focus_point rect_min_x rect_min_y rect_max_x rect_max_y
      circle_point circle_radius sources layers country size' = Inl e"
    unfolding pelias_search_params_def sources_param_def layers_param_def
    by (simp add: err_bind_Inl_iff err_bind_Inr_iff step_iffs)
next
  show "pelias_structured_params text address neighbourhood borough locality county region
      postalcode country = Inl e
    \<longleftrightarrow> pelias_structured_params text' address neighbourhood borough locality county region
      postalcode country = Inl e"
    unfolding pelias_structured_params_def
    by (simp add: err_bind_Inl_iff err_bind_Inr_iff step_iffs)
next
  assume "pelias_search_params ff text focus_point rect_min_x rect_min_y rect_max_x rect_max_y
      circle_point circle_radius sources layers country size' = Inr q"
  then show "q ''text'' = Some text"
    unfolding pelias_search_params_Inr_iff
    by (simp add: upd_if_apply rect_max_lon_key_def rect_min_lon_key_def rect_min_lat_key_def)
next
  assume "pelias_structured_params text address neighbourhood borough locality county region
      postalcode country = Inr q'"
  then show "q' ''text'' = Some text"
    unfolding pelias_structured_params_Inr_iff
    by (simp add: upd_if_apply)
qed

text \<open>
  The integer 42 as \<^verbatim>\<open>text\<close> is sent as it is by both searches; with \<^verbatim>\<open>country=7\<close> the
  exception is the one for the country, for \<^verbatim>\<open>text=42\<close> as for \<^verbatim>\<open>text='Heidelberg'\<close>.
\<close>

theorem text_witness:
  "pelias_search_params spec_format_float (PInt 42) PNone PNone PNone PNone PNone PNone PNone
      PNone PNone PNone PNone = Inr [''text'' \<mapsto> PInt 42]
   \<and> pelias_structured_params (PInt 42) PNone PNone PNone PNone PNone PNone PNone PNone
     = Inr [''text'' \<mapsto> PInt 42]
   \<and> [''text'' \<mapsto> PInt 42] ''text'' = Some (PInt 42)
   \<and> pelias_search_params spec_format_float (PInt 42) PNone PNone PNone PNone PNone PNone PNone
      PNone PNone (PInt 7) PNone = Inl (TypeError ''Country must be a string.'')
   \<and> pelias_search_params spec_format_float (PStr ''Heidelberg'') PNone PNone PNone PNone PNone
      PNone PNone PNone PNone (PInt 7) PNone = Inl (TypeError ''Country must be a string.'')"
proof -
  have e1: "pelias_search_params spec_format_float (PInt 42) PNone PNone PNone PNone PNone
      PNone PNone PNone PNone PNone PNone = Inr [''text'' \<mapsto> PInt 42]"
    by (simp add: eval_defs)
  have e2: "pelias_structured_params (PInt 42) PNone PNone PNone PNone PNone PNone PNone PNone
     = Inr [''text'' \<mapsto> PInt 42]"
    by (simp add: eval_defs)
  have e3: "pelias_search_params spec_format_float (PInt 42) PNone PNone PNone PNone PNone
      PNone PNone PNone PNone (PInt 7) PNone = Inl (TypeError ''Country must be a string.'')"
    by (simp add: eval_defs)
  from text_is_never_validated
      [of spec_format_float "PInt 42" PNone PNone PNone PNone PNone PNone PNone PNone PNone
          PNone PNone _ _ "[''text'' \<mapsto> PInt 42]" PNone PNone PNone PNone PNone PNone PNone
          "[''text'' \<mapsto> PInt 42]"]
       text_is_never_validated
      [of spec_format_float "PInt 42" PNone PNone PNone PNone PNone PNone PNone PNone PNone
          "PInt 7" PNone "TypeError ''Country must be a string.''" "PStr ''Heidelberg''"]
       e1 e2 e3
  show ?thesis by simp
qed

section \<open>The circle radius\<close>

text \<open>
  Claim C10. For a truthy \<^verbatim>\<open>circle_radius\<close>, reverse geocode stores \<^verbatim>\<open>str(circle_radius)\<close>
  under \<^verbatim>\<open>boundary.circle.radius\<close> and free-text search stores the value itself,
  neither stringified nor float-formatted.
\<close>

theorem circle_radius_str_in_reverse_raw_in_search:
  "(truthy circle_radius \<and>
      pelias_reverse_params ff pystr point circle_radius sources layers country size' = Inr q
    \<longrightarrow> q ''boundary.circle.radius'' = Some (PStr (pystr circle_radius)))
   \<and> (truthy circle_radius \<and>
      pelias_search_params ff text focus_point rect_min_x rect_min_y rect_max_x rect_max_y
        circle_point circle_radius sources layers country size' = Inr q'
    \<longrightarrow> q' ''boundary.circle.radius'' = Some circle_radius)"
proof (intro conjI impI)
  assume "truthy circle_radius \<and>
      pelias_reverse_params ff pystr point circle_radius sources layers country size' = Inr q"
  then show "q ''boundary.circle.radius'' = Some (PStr (pystr circle_radius))"
    unfolding pelias_reverse_params_Inr_iff
    by (simp add: upd_if_apply)
next
  assume "truthy circle_radius \<and>
      pelias_search_params ff text focus_point rect_min_x rect_min_y rect_max_x rect_max_y
        circle_point circle_radius sources layers country size' = Inr q'"
  then show "q' ''boundary.circle.radius'' = Some circle_radius"
    unfolding pelias_search_params_Inr_iff
    by (simp add: upd_if_apply)
qed

text \<open>The radius 50: the string \<^verbatim>\<open>'50'\<close> in reverse geocode, the integer 50 in search.\<close>

theorem circle_radius_witness:
  "truthy (PInt 50)
   \<and> pelias_reverse_params spec_format_float int_str (PTuple [PFloat 834 2, PFloat 4823 2])
        (PInt 50) PNone PNone PNone PNone
     = Inr [''point.lon'' \<mapsto> PStr ''8.34'', ''point.lat'' \<mapsto> PStr ''48.23'',
            ''boundary.circle.radius'' \<mapsto> PStr ''50'']
   \<and> [''point.lon'' \<mapsto> PStr ''8.34'', ''point.lat'' \<mapsto> PStr ''48.23'',
       ''boundary.circle.radius'' \<mapsto> PStr ''50''] ''boundary.circle.radius''
     = Some (PStr (int_str (PInt 50)))
   \<and> int_str (PInt 50) = ''50''
   \<and> pelias_search_params spec_format_float (PStr ''Heidelberg'') PNone PNone PNone PNone PNone
        (PTuple [PFloat 834 2, PFloat 4823 2]) (PInt 50) PNone PNone PNone PNone
     = Inr [''text'' \<mapsto> PStr ''Heidelberg'', ''boundary.circle.lon'' \<mapsto> PStr ''8.34'',
            ''boundary.circle.lat'' \<mapsto> PStr ''48.23'', ''boundary.circle.radius'' \<mapsto> PInt 50]
   \<and> [''text'' \<mapsto> PStr ''Heidelberg'', ''boundary.circle.lon'' \<mapsto> PStr ''8.34'',
       ''boundary.circle.lat'' \<mapsto> PStr ''48.23'', ''boundary.circle.radius'' \<mapsto> PInt 50]
        ''boundary.circle.radius''
     = Some (PInt 50)"
proof -
  have e1: "pelias_reverse_params spec_format_float int_str
        (PTuple [PFloat 834 2, PFloat 4823 2]) (PInt 50) PNone PNone PNone PNone
     = Inr [''point.lon'' \<mapsto> PStr ''8.34'', ''point.lat'' \<mapsto> PStr ''48.23'',
            ''boundary.circle.radius'' \<mapsto> PStr ''50'']"
    by (simp add: eval_defs)
  have e2: "pelias_search_params spec_format_float (PStr ''Heidelberg'') PNone PNone PNone
        PNone PNone (PTuple [PFloat 834 2, PFloat 4823 2]) (PInt 50) PNone PNone PNone PNone
     = Inr [''text'' \<mapsto> PStr ''Heidelberg'', ''boundary.circle.lon'' \<mapsto> PStr ''8.34'',
            ''boundary.circle.lat'' \<mapsto> PStr ''48.23'', ''boundary.circle.radius'' \<mapsto> PInt 50]"
    by (simp add: eval_defs)
  from circle_radius_str_in_reverse_raw_in_search
      [of "PInt 50" spec_format_float int_str "PTuple [PFloat 834 2, PFloat 4823 2]" PNone
          PNone PNone PNone
          "[''point.lon'' \<mapsto> PStr ''8.34'', ''point.lat'' \<mapsto> PStr ''48.23'',
            ''boundary.circle.radius'' \<mapsto> PStr ''50'']"
          "PStr ''Heidelberg''" PNone PNone PNone PNone PNone
          "PTuple [PFloat 834 2, PFloat 4823 2]"
          "[''text'' \<mapsto> PStr ''Heidelberg'', ''boundary.circle.lon'' \<mapsto> PStr ''8.34'',
            ''boundary.circle.lat'' \<mapsto> PStr ''48.23'', ''boundary.circle.radius'' \<mapsto> PInt 50]"]
       e1 e2
  show ?thesis by (simp add: fmt_examples)
qed

section \<open>The sources filter\<close>

lemma all_in_iff_subset: "all_in v valid \<longleftrightarrow> set (items v) \<subseteq> PStr ` set valid"
proof -
  have "py_in x valid \<longleftrightarrow> x \<in> PStr ` set valid" for x
    by (cases x) (auto simp: List.member_iff)
  then show ?thesis
    by (auto simp: all_in_def list_all_iff)
qed

lemma upd_if_True: "upd_if True k v p = p(k \<mapsto> v)"
  by (simp add: upd_if_def)

lemma upd_if_False: "upd_if False k v p = p"
  by (simp add: upd_if_def)

lemma sources_outward:
  "upd_if b1 ''size'' v1 (upd_if b2 ''country'' v2 (upd_if b3 ''layers'' v3
      (p(''sources'' \<mapsto> v))))
   = (upd_if b1 ''size'' v1 (upd_if b2 ''country'' v2 (upd_if b3 ''layers'' v3 p)))
       (''sources'' \<mapsto> v)"
  by (rule ext) (simp add: upd_if_apply)

lemma sources_value_msg_eq:
  "sources_value_msg =
     ''Source must be one or more of ['' @ [CHR 0x27] @ ''osm'' @ [CHR 0x27] @ '', ''
       @ [CHR 0x27] @ ''oa'' @ [CHR 0x27] @ '', '' @ [CHR 0x27] @ ''wof'' @ [CHR 0x27] @ '', ''
       @ [CHR 0x27] @ ''gn'' @ [CHR 0x27] @ '']''"
  by (simp add: sources_value_msg_def repr_str_list_def repr_str_def valid_sources_def)

lemma search_sources_valid:
  assumes "pelias_search_params ff text focus_point rect_min_x rect_min_y rect_max_x rect_max_y
      circle_point circle_radius PNone layers country size' = Inr q"
    and "is_list sources" and "truthy sources" and "all_in sources valid_sources"
  shows "pelias_search_params ff text focus_point rect_min_x rect_min_y rect_max_x rect_max_y
      circle_point circle_radius sources layers country size'
     = Inr (q(''sources'' \<mapsto> PStr (join '','' (map the_str (items sources)))))"
  using assms unfolding pelias_search_params_Inr_iff
  by (simp add: upd_if_True upd_if_False sources_outward)

lemma search_sources_invalid:
  assumes "pelias_search_params ff text focus_point rect_min_x rect_min_y rect_max_x rect_max_y
      circle_point circle_radius PNone layers country size' = Inr q"
    and "is_list sources" and "truthy sources" and "\<not> all_in sources valid_sources"
  shows "pelias_search_params ff text focus_point rect_min_x rect_min_y rect_max_x rect_max_y
      circle_point circle_radius sources layers country size'
     = Inl (ValueError sources_value_msg)"
  using assms unfolding pelias_search_params_Inr_iff
  unfolding pelias_search_params_def sources_param_def layers_param_def
  by (simp add: err_bind_Inl_iff err_bind_Inr_iff step_iffs)

lemma reverse_sources_valid:
  assumes "pelias_reverse_params ff pystr point circle_radius PNone layers country size' = Inr q"
    and "is_list sources" and "truthy sources" and "all_in sources valid_sources"
  shows "pelias_reverse_params ff pystr point circle_radius sources layers country size'
     = Inr (q(''sources'' \<mapsto> PStr (join '','' (map the_str (items sources)))))"
  using assms unfolding pelias_reverse_params_Inr_iff
  by (simp add: upd_if_True upd_if_False sources_outward)

lemma reverse_sources_invalid:
  assumes "pelias_reverse_params ff pystr point circle_radius PNone layers country size' = Inr q"
    and "is_list sources" and "truthy sources" and "\<not> all_in sources valid_sources"
  shows "pelias_reverse_params ff pystr point circle_radius sources layers country size'
     = Inl (ValueError sources_value_msg)"
  using assms unfolding pelias_reverse_params_Inr_iff
  unfolding pelias_reverse_params_def sources_param_def layers_param_def
  by (simp add: err_bind_Inl_iff err_bind_Inr_iff step_iffs)

lemma valid_sources_set: "set valid_sources = {''osm'', ''oa'', ''wof'', ''gn''}"
  by (simp add: valid_sources_def)

text \<open>
  Claim C8, as amended. Let the other arguments be valid, that is, the call with
  \<^verbatim>\<open>sources\<close> omitted raises nothing and builds the mapping \<open>q\<close>. For every non-empty
  sequence \<^verbatim>\<open>sources\<close> (list or tuple) whose elements all are tokens of
  \<^verbatim>\<open>{osm, oa, wof, gn}\<close>, the call builds \<open>q\<close> with \<^verbatim>\<open>sources\<close> set to the tokens joined
  by commas in the given order; for every sequence with an element outside that set,
  the call raises the invalid-value error whose message lists the four tokens,
  \<^verbatim>\<open>Source must be one or more of ['osm', 'oa', 'wof', 'gn']\<close>. Free-text search and
  reverse geocode behave alike.
\<close>

theorem sources_joined_in_order_or_rejected:
  "(is_list sources \<and> truthy sources \<and>
      pelias_search_params ff text focus_point rect_min_x rect_min_y rect_max_x rect_max_y
        circle_point circle_radius PNone layers country size' = Inr q \<longrightarrow>
      (if set (items sources) \<subseteq> PStr ` {''osm'', ''oa'', ''wof'', ''gn''}
       then pelias_search_params ff text focus_point rect_min_x rect_min_y rect_max_x
              rect_max_y circle_point circle_radius sources layers country size'
            = Inr (q(''sources'' \<mapsto> PStr (join '','' (map the_str (items sources)))))
       else pelias_search_params ff text focus_point rect_min_x rect_min_y rect_max_x
              rect_max_y circle_point circle_radius sources layers country size'
            = Inl (ValueError
                (''Source must be one or more of ['' @ [CHR 0x27] @ ''osm'' @ [CHR 0x27]
                 @ '', '' @ [CHR 0x27] @ ''oa'' @ [CHR 0x27] @ '', '' @ [CHR 0x27] @ ''wof''
                 @ [CHR 0x27] @ '', '' @ [CHR 0x27] @ ''gn'' @ [CHR 0x27] @ '']''))))
   \<and> (is_list sources \<and> truthy sources \<and>
      pelias_reverse_params ff pystr point circle_radius PNone layers country size' = Inr q'
      \<longrightarrow>
      (if set (items sources) \<subseteq> PStr ` {''osm'', ''oa'', ''wof'', ''gn''}
       then pelias_reverse_params ff pystr point circle_radius sources layers country size'
            = Inr (q'(''sources'' \<mapsto> PStr (join '','' (map the_str (items sources)))))
       else pelias_reverse_params ff pystr point circle_radius sources layers country size'
            = Inl (ValueError
                (''Source must be one or more of ['' @ [CHR 0x27] @ ''osm'' @ [CHR 0x27]
                 @ '', '' @ [CHR 0x27] @ ''oa'' @ [CHR 0x27] @ '', '' @ [CHR 0x27] @ ''wof''
                 @ [CHR 0x27] @ '', '' @ [CHR 0x27] @ ''gn'' @ [CHR 0x27] @ '']''))))"
proof (intro conjI impI)
  assume a: "is_list sources \<and> truthy sources \<and>
      pelias_search_params ff text focus_point rect_min_x rect_min_y rect_max_x rect_max_y
        circle_point circle_radius PNone layers country size' = Inr q"
  show "if set (items sources) \<subseteq> PStr ` {''osm'', ''oa'', ''wof'', ''gn''}
       then pelias_search_params ff text focus_point rect_min_x rect_min_y rect_max_x
              rect_max_y circle_point circle_radius sources layers country size'
            = Inr (q(''sources'' \<mapsto> PStr (join '','' (map the_str (items sources)))))
       else pelias_search_params ff text focus_point rect_min_x rect_min_y rect_max_x
              rect_max_y circle_point circle_radius sources layers country size'
            = Inl (ValueError
                (''Source must be one or more of ['' @ [CHR 0x27] @ ''osm'' @ [CHR 0x27]
                 @ '', '' @ [CHR 0x27] @ ''oa'' @ [CHR 0x27] @ '', '' @ [CHR 0x27] @ ''wof''
                 @ [CHR 0x27] @ '', '' @ [CHR 0x27] @ ''gn'' @ [CHR 0x27] @ '']''))"
  proof (cases "all_in sources valid_sources")
    case True
    from a search_sources_valid [OF _ _ _ True] show ?thesis
      using True by (simp add: all_in_iff_subset valid_sources_set)
  next
    case False
    from a search_sources_invalid [OF _ _ _ False] show ?thesis
      using False by (simp add: all_in_iff_subset valid_sources_set sources_value_msg_eq)
  qed
next
  assume a: "is_list sources \<and> truthy sources \<and>
      pelias_reverse_params ff pystr point circle_radius PNone layers country size' = Inr q'"
  show "if set (items sources) \<subseteq> PStr ` {''osm'', ''oa'', ''wof'', ''gn''}
       then pelias_reverse_params ff pystr point circle_radius sources layers country size'
            = Inr (q'(''sources'' \<mapsto> PStr (join '','' (map the_str (items sources)))))
       else pelias_reverse_params ff pystr point circle_radius sources layers country size'
            = Inl (ValueError
                (''Source must be one or more of ['' @ [CHR 0x27] @ ''osm'' @ [CHR 0x27]
                 @ '', '' @ [CHR 0x27] @ ''oa'' @ [CHR 0x27] @ '', '' @ [CHR 0x27] @ ''wof''
                 @ [CHR 0x27] @ '', '' @ [CHR 0x27] @ ''gn'' @ [CHR 0x27] @ '']''))"
  proof (cases "all_in sources valid_sources")
    case True
    from a reverse_sources_valid [OF _ _ _ True] show ?thesis
      using True by (simp add: all_in_iff_subset valid_sources_set)
  next
    case False
    from a reverse_sources_invalid [OF _ _ _ False] show ?thesis
      using False by (simp add: all_in_iff_subset valid_sources_set sources_value_msg_eq)
  qed
qed

text \<open>
  The sources \<^verbatim>\<open>['wof', 'osm']\<close> are sent as \<^verbatim>\<open>'wof,osm'\<close>, in the order given; the tuple
  \<^verbatim>\<open>('osm', 'bing')\<close> is rejected with the message that lists the four tokens.
\<close>

theorem sources_witness:
  "pelias_search_params spec_format_float (PStr ''Heidelberg'') PNone PNone PNone PNone PNone
        PNone PNone (PList [PStr ''wof'', PStr ''osm'']) PNone PNone PNone
      = Inr [''text'' \<mapsto> PStr ''Heidelberg'', ''sources'' \<mapsto> PStr ''wof,osm'']
   \<and> pelias_reverse_params spec_format_float int_str (PTuple [PFloat 834 2, PFloat 4823 2])
        PNone (PList [PStr ''wof'', PStr ''osm'']) PNone PNone PNone
      = Inr [''point.lon'' \<mapsto> PStr ''8.34'', ''point.lat'' \<mapsto> PStr ''48.23'',
             ''sources'' \<mapsto> PStr ''wof,osm'']
   \<and> pelias_search_params spec_format_float (PStr ''Heidelberg'') PNone PNone PNone PNone PNone
        PNone PNone (PTuple [PStr ''osm'', PStr ''bing'']) PNone PNone PNone
      = Inl (ValueError
          (''Source must be one or more of ['' @ [CHR 0x27] @ ''osm'' @ [CHR 0x27]
           @ '', '' @ [CHR 0x27] @ ''oa'' @ [CHR 0x27] @ '', '' @ [CHR 0x27] @ ''wof''
           @ [CHR 0x27] @ '', '' @ [CHR 0x27] @ ''gn'' @ [CHR 0x27] @ '']''))
   \<and> pelias_reverse_params spec_format_float int_str (PTuple [PFloat 834 2, PFloat 4823 2])
        PNone (PTuple [PStr ''osm'', PStr ''bing'']) PNone PNone PNone
      = Inl (ValueError
          (''Source must be one or more of ['' @ [CHR 0x27] @ ''osm'' @ [CHR 0x27]
           @ '', '' @ [CHR 0x27] @ ''oa'' @ [CHR 0x27] @ '', '' @ [CHR 0x27] @ ''wof''
           @ [CHR 0x27] @ '', '' @ [CHR 0x27] @ ''gn'' @ [CHR 0x27] @ '']''))"
proof -
  have e1: "pelias_search_params spec_format_float (PStr ''Heidelberg'') PNone PNone PNone
        PNone PNone PNone PNone PNone PNone PNone PNone = Inr [''text'' \<mapsto> PStr ''Heidelberg'']"
    by (simp add: eval_defs)
  have e2: "pelias_reverse_params spec_format_float int_str
        (PTuple [PFloat 834 2, PFloat 4823 2]) PNone PNone PNone PNone PNone
      = Inr [''point.lon'' \<mapsto> PStr ''8.34'', ''point.lat'' \<mapsto> PStr ''48.23'']"
    by (simp add: eval_defs)
  from sources_joined_in_order_or_rejected
      [of "PList [PStr ''wof'', PStr ''osm'']" spec_format_float "PStr ''Heidelberg''" PNone
          PNone PNone PNone PNone PNone PNone PNone PNone PNone
          "[''text'' \<mapsto> PStr ''Heidelberg'']" int_str "PTuple [PFloat 834 2, PFloat 4823 2]"
          "[''point.lon'' \<mapsto> PStr ''8.34'', ''point.lat'' \<mapsto> PStr ''48.23'']"]
       sources_joined_in_order_or_rejected
      [of "PTuple [PStr ''osm'', PStr ''bing'']" spec_format_float "PStr ''Heidelberg''" PNone
          PNone PNone PNone PNone PNone PNone PNone PNone PNone
          "[''text'' \<mapsto> PStr ''Heidelberg'']" int_str "PTuple [PFloat 834 2, PFloat 4823 2]"
          "[''point.lon'' \<mapsto> PStr ''8.34'', ''point.lat'' \<mapsto> PStr ''48.23'']"]
       e1 e2
  show ?thesis by simp
qed

text \<open>
  Claim C8 as stated fails for the empty sequence: it is a valid subset, but it is
  falsy, so the \<^verbatim>\<open>sources\<close> block is skipped and the mapping has no \<^verbatim>\<open>sources\<close> key
  at all, in both operations.
\<close>

theorem empty_sources_sends_no_key:
  "is_list (PList []) \<and> all_in (PList []) valid_sources
   \<and> pelias_search_params spec_format_float (PStr ''Heidelberg'') PNone PNone PNone PNone PNone
        PNone PNone (PList []) PNone PNone PNone = Inr [''text'' \<mapsto> PStr ''Heidelberg'']
   \<and> [''text'' \<mapsto> PStr ''Heidelberg''] ''sources'' = None
   \<and> pelias_reverse_params spec_format_float int_str (PTuple [PFloat 834 2, PFloat 4823 2])
        PNone (PList []) PNone PNone PNone
      = Inr [''point.lon'' \<mapsto> PStr ''8.34'', ''point.lat'' \<mapsto> PStr ''48.23'']
   \<and> [''point.lon'' \<mapsto> PStr ''8.34'', ''point.lat'' \<mapsto> PStr ''48.23''] ''sources'' = None"
  by (simp add: eval_defs)

end
